theory Spec2Isabelle
  imports Complex_Main "HOL-Library.Word" "HOL-Library.AList"
begin

section \<open>Values, fields and records\<close>

text \<open>
  The Go code walks a struct through package \<^verbatim>\<open>reflect\<close>. A struct is embedded as the
  list of its fields in declaration order; each field carries its name, its struct tag
  (key/value pairs), whether \<^verbatim>\<open>CanSet()\<close> holds (the field is exported), the string of
  its type and its current value. A value carries its \<^verbatim>\<open>reflect.Kind\<close>:
  the signed and unsigned integer kinds keep their width, the \<^verbatim>\<open>sql.Null*\<close> wrappers
  keep their payload and their \<^verbatim>\<open>Valid\<close> flag, \<^verbatim>\<open>time.Time\<close> is an instant counted
  from the zero time, and a float field carries the exact rational it denotes (rounding,
  NaN and infinities are outside the embedding). \<^verbatim>\<open>VCustom\<close> is a struct of any other
  type, \<open>0\<close> standing for the zero value of that type.
\<close>

datatype iwidth = W8 | W16 | WInt | W32 | W64

datatype fwidth = F32 | F64

type_synonym gotime = int

datatype fvalue =
    VString string
  | VBool bool
  | VInt iwidth int
  | VFloat fwidth rat
  | VUint iwidth nat
  | VPtr "fvalue option"
  | VSlice "fvalue list"
  | VNullString string bool
  | VNullBool bool bool
  | VNullFloat64 rat bool
  | VNullInt32 int bool
  | VNullInt64 int bool
  | VNullTime gotime bool
  | VTime gotime
  | VInterface "fvalue option"
  | VError "string option"
  | VCustom nat

datatype kind = KString | KBool | KIntK iwidth | KFloatK fwidth | KUintK iwidth
  | KPtr | KSlice | KStruct | KInterface

fun Kind :: "fvalue \<Rightarrow> kind" where
  "Kind (VString _) = KString"
| "Kind (VBool _) = KBool"
| "Kind (VInt w _) = KIntK w"
| "Kind (VFloat w _) = KFloatK w"
| "Kind (VUint w _) = KUintK w"
| "Kind (VPtr _) = KPtr"
| "Kind (VSlice _) = KSlice"
| "Kind (VInterface _) = KInterface"
| "Kind (VError _) = KInterface"
| "Kind _ = KStruct"

type_synonym tags = "(string \<times> string) list"

record field =
  Name :: string
  Tag :: tags
  CanSet :: bool
  TypeName :: string
  Value :: fvalue

type_synonym struct = "field list"

text \<open>\<^verbatim>\<open>field.Tag.Get(key)\<close>: the value of the key, the empty string when the key is absent.\<close>

definition Tag_Get :: "field \<Rightarrow> string \<Rightarrow> string" where
  "Tag_Get f k = (case map_of (Tag f) k of None \<Rightarrow> [] | Some v \<Rightarrow> v)"

text \<open>
  The \<^verbatim>\<open>interface{}\<close> argument of every entry point: nil, a value that is not a pointer,
  a pointer to something that is not a struct, or a pointer to a struct.
\<close>

datatype iface = INil | INonPtr | IPtrNonStruct | IPtrStruct struct

datatype error =
    InputRequired | TagNameRequired | NotPointer | NotStruct | YieldedBlank
  | PayloadRequired | DelimiterRequired | ZeroElements
  | JsonFailed | JsonMapNil | JsonMapEmpty
  | InterfaceWithoutObject string
  | BlocksOf string int
  | MinLength string int
  | RangeMinimum string int
  | RangeMaximum string int
  | RequiredField string
  | ValidationFailed string string string
  | ValidationFalse string string
  | ValidationError string string
  | Failure string

section \<open>Strings of the Go library\<close>

text \<open>
  Strings are byte lists. \<^verbatim>\<open>strings.ToLower\<close> is embedded on ASCII letters,
  \<^verbatim>\<open>strings.Split\<close> and \<^verbatim>\<open>strings.Replace(s, old, new, -1)\<close> as Go defines them.
\<close>

definition lower_char :: "char \<Rightarrow> char" where
  "lower_char c = (let n = (of_char c :: nat) in if 65 \<le> n \<and> n \<le> 90 then char_of (n + 32) else c)"

definition ToLower :: "string \<Rightarrow> string" where
  "ToLower s = map lower_char s"

fun Split_from :: "string \<Rightarrow> string \<Rightarrow> string \<Rightarrow> string list" where
  "Split_from sep cur [] = [cur]"
| "Split_from sep cur (c # cs) =
     (if sep \<noteq> [] \<and> take (length sep) (c # cs) = sep
      then cur # Split_from sep [] (drop (length sep - 1) cs)
      else Split_from sep (cur @ [c]) cs)"

definition Split :: "string \<Rightarrow> string \<Rightarrow> string list" where
  "Split s sep = (if sep = [] then map (\<lambda>c. [c]) s else Split_from sep [] s)"

fun Join :: "string list \<Rightarrow> string \<Rightarrow> string" where
  "Join [] sep = []"
| "Join [x] sep = x"
| "Join (x # y # ys) sep = x @ sep @ Join (y # ys) sep"

definition ReplaceAll :: "string \<Rightarrow> string \<Rightarrow> string \<Rightarrow> string" where
  "ReplaceAll s old new = (if old = [] then s else Join (Split s old) new)"

section \<open>Helpers of the package that the walked functions call\<close>

text \<open>
  Modelled from the spec: the low-level string utilities \<^verbatim>\<open>Trim\<close>, \<^verbatim>\<open>LenTrim\<close>,
  \<^verbatim>\<open>Left\<close>, \<^verbatim>\<open>Right\<close> and \<^verbatim>\<open>StringSliceContains\<close>, whose source is not part of the
  files under verification. \<^verbatim>\<open>Trim\<close> removes leading and trailing white space,
  \<^verbatim>\<open>LenTrim\<close> is the length of the trimmed text, \<^verbatim>\<open>Left\<close> and \<^verbatim>\<open>Right\<close> return the
  leading and the trailing \<open>l\<close> bytes (the whole text when it is not longer than \<open>l\<close>,
  or when \<open>l\<close> is not positive).
\<close>

definition is_space :: "char \<Rightarrow> bool" where
  "is_space c = ((of_char c :: nat) \<in> {32, 9, 10, 11, 12, 13})"

definition Trim :: "string \<Rightarrow> string" where
  "Trim s = rev (dropWhile is_space (rev (dropWhile is_space s)))"

definition LenTrim :: "string \<Rightarrow> nat" where
  "LenTrim s = length (Trim s)"

definition Left :: "string \<Rightarrow> int \<Rightarrow> string" where
  "Left s l = (if int (length s) \<le> l \<or> l \<le> 0 then s else take (nat l) s)"

definition Right :: "string \<Rightarrow> int \<Rightarrow> string" where
  "Right s l = (if int (length s) \<le> l \<or> l \<le> 0 then s else drop (length s - nat l) s)"

definition StringSliceContains :: "string list \<Rightarrow> string \<Rightarrow> bool" where
  "StringSliceContains xs v = (v \<in> set xs)"

text \<open>
  The remaining helpers (primitive parsing and rendering, character-class extraction,
  the reflective value/text conversions, method invocation by name, the type registry,
  URL and JSON escaping, and the JSON decoder of the Go library) are not part of the
  files under verification either. They are parameters of the embedding: every function
  below takes a record of them, and every general theorem holds for all of them.
  A method invoked by name is represented by the results it returns (\<open>None\<close> when the
  method is not found); what such a user method may write into the record on its own is
  outside the embedding. The receiver is \<open>None\<close> for the enclosing record
  (\<^verbatim>\<open>s.Addr()\<close>) and \<open>Some o\<close> for the field value.
\<close>

datatype param = PString string | PSlice "fvalue list"

datatype json_result = JsonError | JsonNil | JsonMap "(string \<times> string) list"

record helpers =
  ParseBool :: "string \<Rightarrow> bool \<times> bool"
  ParseInt32 :: "string \<Rightarrow> int \<times> bool"
  ParseInt64 :: "string \<Rightarrow> int \<times> bool"
  ParseFloat64 :: "string \<Rightarrow> rat \<times> bool"
  StrToUint64 :: "string \<Rightarrow> nat"
  ParseDateTimeCustom :: "string \<Rightarrow> string \<Rightarrow> gotime"
  DateTimeFormatString :: string
  Int64ToString :: "int \<Rightarrow> string"
  UInt64ToString :: "nat \<Rightarrow> string"
  Float64ToString :: "rat \<Rightarrow> string"
  Itoa :: "int \<Rightarrow> string"
  ExtractAlpha :: "string \<Rightarrow> string"
  ExtractNumeric :: "string \<Rightarrow> string"
  ExtractAlphaNumeric :: "string \<Rightarrow> string"
  ExtractAlphaNumericPrintableSymbols :: "string \<Rightarrow> string"
  ExtractHex :: "string \<Rightarrow> string"
  ExtractByRegex :: "string \<Rightarrow> string \<Rightarrow> string"
  ReflectValueToString ::
    "fvalue \<Rightarrow> string \<Rightarrow> string \<Rightarrow> bool \<Rightarrow> bool \<Rightarrow> string \<Rightarrow> bool \<Rightarrow> string \<times> bool \<times> string option"
  ReflectStringToField :: "fvalue \<Rightarrow> string \<Rightarrow> string \<Rightarrow> fvalue \<times> string option"
  ReflectCall :: "struct \<Rightarrow> fvalue option \<Rightarrow> string \<Rightarrow> param list \<Rightarrow> fvalue list option"
  DerefPointersZero :: "fvalue \<Rightarrow> fvalue \<times> bool"
  ReflectTypeRegistryGet :: "string \<Rightarrow> fvalue option"
  PathEscape :: "string \<Rightarrow> string"
  JsonToEscaped :: "string \<Rightarrow> string"
  JsonFromEscaped :: "string \<Rightarrow> string"
  json_Unmarshal :: "string \<Rightarrow> json_result"

text \<open>
  The error of a helper is its message; a function that returns such an error to its
  caller returns it as \<open>Failure\<close>. \<open>set_field\<close> is the call
  \<^verbatim>\<open>ReflectStringToField(o, text, timeFormat)\<close> with the new value of the field.
\<close>

definition set_field :: "helpers \<Rightarrow> fvalue \<Rightarrow> string \<Rightarrow> string \<Rightarrow> fvalue \<times> error option" where
  "set_field h v text tf =
     (case ReflectStringToField h v text tf of (v', e) \<Rightarrow> (v', map_option Failure e))"

text \<open>\<^verbatim>\<open>DerefError\<close> reads an error out of a returned value: non-nil exactly for an error value that is set.\<close>

definition DerefError :: "fvalue \<Rightarrow> bool" where
  "DerefError v = (case v of VError (Some _) \<Rightarrow> True | _ \<Rightarrow> False)"

text \<open>\<^verbatim>\<open>OverflowInt\<close>, \<^verbatim>\<open>OverflowUint\<close> and \<^verbatim>\<open>OverflowFloat\<close> of package reflect (\<^verbatim>\<open>int\<close> is 64 bits wide).\<close>

fun bits :: "iwidth \<Rightarrow> nat" where
  "bits W8 = 8" | "bits W16 = 16" | "bits WInt = 64" | "bits W32 = 32" | "bits W64 = 64"

definition OverflowInt :: "iwidth \<Rightarrow> int \<Rightarrow> bool" where
  "OverflowInt w i = (i < - (2 ^ (bits w - 1)) \<or> 2 ^ (bits w - 1) \<le> i)"

definition OverflowUint :: "iwidth \<Rightarrow> nat \<Rightarrow> bool" where
  "OverflowUint w u = (2 ^ bits w \<le> u)"

definition MaxFloat32 :: rat where
  "MaxFloat32 = (2 ^ 24 - 1) * 2 ^ 104"

definition OverflowFloat :: "fwidth \<Rightarrow> rat \<Rightarrow> bool" where
  "OverflowFloat w x = (case w of F32 \<Rightarrow> MaxFloat32 < \<bar>x\<bar> | F64 \<Rightarrow> False)"

section \<open>Structural mutators\<close>

subsection \<open>StructClearFields\<close>

text \<open>The zero value that \<^verbatim>\<open>StructClearFields\<close> stores, by kind and then by type.\<close>

fun zero_value :: "fvalue \<Rightarrow> fvalue" where
  "zero_value (VString _) = VString []"
| "zero_value (VBool _) = VBool False"
| "zero_value (VInt w _) = VInt w 0"
| "zero_value (VFloat w _) = VFloat w 0"
| "zero_value (VUint w _) = VUint w 0"
| "zero_value (VPtr _) = VPtr None"
| "zero_value (VSlice _) = VSlice []"
| "zero_value (VNullString _ _) = VNullString [] False"
| "zero_value (VNullBool _ _) = VNullBool False False"
| "zero_value (VNullFloat64 _ _) = VNullFloat64 0 False"
| "zero_value (VNullInt32 _ _) = VNullInt32 0 False"
| "zero_value (VNullInt64 _ _) = VNullInt64 0 False"
| "zero_value (VNullTime _ _) = VNullTime 0 False"
| "zero_value (VTime _) = VTime 0"
| "zero_value (VInterface _) = VInterface None"
| "zero_value (VError _) = VError None"
| "zero_value (VCustom _) = VCustom 0"

definition clear_field :: "field \<Rightarrow> field" where
  "clear_field f = (if CanSet f then f\<lparr>Value := zero_value (Value f)\<rparr> else f)"

definition clear_struct :: "struct \<Rightarrow> struct" where
  "clear_struct s = map clear_field s"

fun StructClearFields :: "iface \<Rightarrow> iface" where
  "StructClearFields (IPtrStruct s) = IPtrStruct (clear_struct s)"
| "StructClearFields i = i"

subsection \<open>StructNonDefaultRequiredFieldsCount\<close>

fun required_count :: "struct \<Rightarrow> nat" where
  "required_count [] = 0"
| "required_count (f # fs) =
     (if CanSet f \<and> length (Tag_Get f ''def'') = 0 \<and> ToLower (Tag_Get f ''req'') = ''true''
      then Suc (required_count fs) else required_count fs)"

fun StructNonDefaultRequiredFieldsCount :: "iface \<Rightarrow> nat" where
  "StructNonDefaultRequiredFieldsCount (IPtrStruct s) = required_count s"
| "StructNonDefaultRequiredFieldsCount i = 0"

subsection \<open>IsStructFieldSet\<close>

text \<open>The time format of a field: tag \<^verbatim>\<open>timeformat\<close> trimmed, the package default when blank.\<close>

definition tag_time_format :: "helpers \<Rightarrow> field \<Rightarrow> string" where
  "tag_time_format h f =
     (let tagTimeFormat = Trim (Tag_Get f ''timeformat'')
      in if LenTrim tagTimeFormat = 0 then DateTimeFormatString h else tagTimeFormat)"

text \<open>
  One iteration of the loop of \<^verbatim>\<open>IsStructFieldSet\<close>: whether the switch over the kind
  (and, in its default branch, over the type) reaches a \<^verbatim>\<open>return true\<close>.
\<close>

fun value_is_set :: "helpers \<Rightarrow> field \<Rightarrow> string \<Rightarrow> fvalue \<Rightarrow> bool" where
  "value_is_set h f tagDef (VString s) = (LenTrim s > 0 \<and> s \<noteq> tagDef)"
| "value_is_set h f tagDef (VBool b) = b"
| "value_is_set h f tagDef (VInt w i) = (i \<noteq> 0 \<and> Int64ToString h i \<noteq> tagDef)"
| "value_is_set h f tagDef (VFloat w x) = (x \<noteq> 0 \<and> Float64ToString h x \<noteq> tagDef)"
| "value_is_set h f tagDef (VUint w u) = (u > 0 \<and> UInt64ToString h u \<noteq> tagDef)"
| "value_is_set h f tagDef (VPtr p) = (p \<noteq> None)"
| "value_is_set h f tagDef (VSlice xs) = (length xs > 0)"
| "value_is_set h f tagDef (VNullString s valid) =
     (valid \<and> (length tagDef = 0 \<or> s \<noteq> tagDef))"
| "value_is_set h f tagDef (VNullBool b valid) =
     (valid \<and> (length tagDef = 0 \<or> fst (ParseBool h tagDef)))"
| "value_is_set h f tagDef (VNullFloat64 x valid) =
     (valid \<and> (length tagDef = 0 \<or> Float64ToString h x \<noteq> tagDef))"
| "value_is_set h f tagDef (VNullInt32 i valid) =
     (valid \<and> (length tagDef = 0 \<or> Itoa h i \<noteq> tagDef))"
| "value_is_set h f tagDef (VNullInt64 i valid) =
     (valid \<and> (length tagDef = 0 \<or> Int64ToString h i \<noteq> tagDef))"
| "value_is_set h f tagDef (VNullTime t valid) =
     (valid \<and> (length tagDef = 0 \<or> t \<noteq> ParseDateTimeCustom h tagDef (tag_time_format h f)))"
| "value_is_set h f tagDef (VTime t) =
     (t \<noteq> 0 \<and> (length tagDef = 0 \<or> t \<noteq> ParseDateTimeCustom h tagDef (tag_time_format h f)))"
| "value_is_set h f tagDef (VInterface v) = (v \<noteq> None)"
| "value_is_set h f tagDef (VError e) = (e \<noteq> None)"
| "value_is_set h f tagDef (VCustom n) = False"

definition field_is_set :: "helpers \<Rightarrow> field \<Rightarrow> bool" where
  "field_is_set h f = (CanSet f \<and> value_is_set h f (Tag_Get f ''def'') (Value f))"

fun any_field_set :: "helpers \<Rightarrow> struct \<Rightarrow> bool" where
  "any_field_set h [] = False"
| "any_field_set h (f # fs) = (if field_is_set h f then True else any_field_set h fs)"

fun IsStructFieldSet :: "helpers \<Rightarrow> iface \<Rightarrow> bool" where
  "IsStructFieldSet h (IPtrStruct s) = any_field_set h s"
| "IsStructFieldSet h i = False"

subsection \<open>SetStructFieldDefaultValues\<close>

text \<open>
  The signed integer branch: with no setter the default text is parsed as it is; with a
  setter the method is invoked on the field value with the default text and its first
  result, rendered, replaces the default text before parsing. \<open>None\<close> is the
  \<^verbatim>\<open>continue\<close> of the source.
\<close>

definition parse_int_default :: "helpers \<Rightarrow> iwidth \<Rightarrow> string \<Rightarrow> fvalue" where
  "parse_int_default h w tagDef =
     (case ParseInt64 h tagDef of (i64, ok) \<Rightarrow>
        if ok \<and> i64 \<noteq> 0 \<and> \<not> OverflowInt w i64 then VInt w i64 else VInt w 0)"

definition setter_default_text :: "helpers \<Rightarrow> fvalue list \<Rightarrow> string \<Rightarrow> string option" where
  "setter_default_text h res tagDef =
     (if length res = 1 then
        (case ReflectValueToString h (res ! 0) [] [] False False [] False of
           (val, skip, err) \<Rightarrow> if err = None \<and> \<not> skip then Some val else None)
      else if length res > 1 then
        (if \<not> DerefError (last res) then
           (case ReflectValueToString h (res ! 0) [] [] False False [] False of
              (val, skip, err) \<Rightarrow> if err = None \<and> \<not> skip then Some val else None)
         else Some tagDef)
      else Some tagDef)"

fun default_value :: "helpers \<Rightarrow> struct \<Rightarrow> field \<Rightarrow> string \<Rightarrow> fvalue \<Rightarrow> fvalue" where
  "default_value h s f tagDef (VString v) = (if LenTrim v = 0 then VString tagDef else VString v)"
| "default_value h s f tagDef (VInt w i) =
     (if i = 0 then
        (let tagSetter = Trim (Tag_Get f ''setter'') in
         if LenTrim tagSetter = 0 then parse_int_default h w tagDef
         else (case ReflectCall h s (Some (VInt w i)) tagSetter [PString tagDef] of
                 None \<Rightarrow> VInt w i
               | Some res \<Rightarrow>
                   (case setter_default_text h res tagDef of
                      None \<Rightarrow> VInt w i
                    | Some tagDef' \<Rightarrow> parse_int_default h w tagDef')))
      else VInt w i)"
| "default_value h s f tagDef (VFloat w x) =
     (if x = 0 then
        (case ParseFloat64 h tagDef of (f64, ok) \<Rightarrow>
           if ok \<and> f64 \<noteq> 0 \<and> \<not> OverflowFloat w f64 then VFloat w f64 else VFloat w x)
      else VFloat w x)"
| "default_value h s f tagDef (VUint w u) =
     (if u = 0 then
        (let u64 = StrToUint64 h tagDef in
         if u64 \<noteq> 0 \<and> \<not> OverflowUint w u64 then VUint w u64 else VUint w u)
      else VUint w u)"
| "default_value h s f tagDef (VNullString v valid) =
     (if \<not> valid then VNullString tagDef True else VNullString v valid)"
| "default_value h s f tagDef (VNullBool b valid) =
     (if \<not> valid then VNullBool (fst (ParseBool h tagDef)) True else VNullBool b valid)"
| "default_value h s f tagDef (VNullFloat64 x valid) =
     (if \<not> valid then
        (case ParseFloat64 h tagDef of (f64, ok) \<Rightarrow>
           if ok \<and> f64 \<noteq> 0 then VNullFloat64 f64 True else VNullFloat64 x valid)
      else VNullFloat64 x valid)"
| "default_value h s f tagDef (VNullInt32 i valid) =
     (if \<not> valid then
        (case ParseInt32 h tagDef of (i32, ok) \<Rightarrow>
           if ok \<and> i32 \<noteq> 0 then VNullInt32 (sint (word_of_int i32 :: 32 word)) True
           else VNullInt32 i valid)
      else VNullInt32 i valid)"
| "default_value h s f tagDef (VNullInt64 i valid) =
     (if \<not> valid then
        (case ParseInt64 h tagDef of (i64, ok) \<Rightarrow>
           if ok \<and> i64 \<noteq> 0 then VNullInt64 i64 True else VNullInt64 i valid)
      else VNullInt64 i valid)"
| "default_value h s f tagDef (VNullTime t valid) =
     (if \<not> valid then
        (let t' = ParseDateTimeCustom h tagDef (tag_time_format h f) in
         if t' \<noteq> 0 then VNullTime t' True else VNullTime t valid)
      else VNullTime t valid)"
| "default_value h s f tagDef (VTime t) =
     (if t = 0 then
        (let t' = ParseDateTimeCustom h tagDef (tag_time_format h f) in
         if t' \<noteq> 0 then VTime t' else VTime t)
      else VTime t)"
| "default_value h s f tagDef v = v"

text \<open>
  The loop of \<^verbatim>\<open>SetStructFieldDefaultValues\<close>: \<open>done\<close> holds the fields already visited
  (with their new values), so that a setter invoked for a later field sees the record
  as it is at that moment.
\<close>

definition default_field :: "helpers \<Rightarrow> struct \<Rightarrow> field \<Rightarrow> field" where
  "default_field h s f =
     (let tagDef = Tag_Get f ''def'' in
      if CanSet f \<and> length tagDef \<noteq> 0 then f\<lparr>Value := default_value h s f tagDef (Value f)\<rparr> else f)"

fun default_loop :: "helpers \<Rightarrow> struct \<Rightarrow> struct \<Rightarrow> struct" where
  "default_loop h done [] = done"
| "default_loop h done (f # fs) = default_loop h (done @ [default_field h (done @ f # fs) f]) fs"

definition default_struct :: "helpers \<Rightarrow> struct \<Rightarrow> struct" where
  "default_struct h s = default_loop h [] s"

text \<open>The function returns the new content of the pointer and its boolean result.\<close>

fun SetStructFieldDefaultValues :: "helpers \<Rightarrow> iface \<Rightarrow> iface \<times> bool" where
  "SetStructFieldDefaultValues h (IPtrStruct s) = (IPtrStruct (default_struct h s), True)"
| "SetStructFieldDefaultValues h i = (i, False)"

section \<open>Tag policies shared by the CSV functions\<close>

text \<open>
  \<^verbatim>\<open>UnmarshalCSVToStruct\<close> and \<^verbatim>\<open>MarshalStructToCSV\<close> read the tags \<^verbatim>\<open>type\<close>,
  \<^verbatim>\<open>regex\<close>, \<^verbatim>\<open>size\<close>, \<^verbatim>\<open>range\<close> and \<^verbatim>\<open>req\<close> with the same statements
  (the unmarshal function has the reading of \<^verbatim>\<open>range\<close> commented out).
\<close>

definition valid_types :: "string list" where
  "valid_types = [''a'', ''n'', ''an'', ''ans'', ''b'', ''b64'', ''regex'', ''h'']"

definition tag_type :: "field \<Rightarrow> string" where
  "tag_type f =
     (let tagType = Trim (ToLower (Tag_Get f ''type''));
          tagType = (if tagType \<in> set valid_types then tagType else []);
          tagRegEx = Trim (Tag_Get f ''regex'')
      in if tagType \<noteq> ''regex'' then tagType
         else if LenTrim tagRegEx = 0 then [] else tagType)"

definition tag_regex :: "field \<Rightarrow> string" where
  "tag_regex f =
     (let tagType = Trim (ToLower (Tag_Get f ''type''));
          tagType = (if tagType \<in> set valid_types then tagType else []);
          tagRegEx = Trim (Tag_Get f ''regex'')
      in if tagType \<noteq> ''regex'' then [] else tagRegEx)"

text \<open>The size rule: \<open>(sizeMin, sizeMax, tagModulo)\<close>.\<close>

definition tag_size :: "helpers \<Rightarrow> field \<Rightarrow> int \<times> int \<times> int" where
  "tag_size h f =
     (let tagSize = Trim (ToLower (Tag_Get f ''size''));
          arModulo = Split tagSize ''+%'';
          tagModulo = (if length arModulo = 2
                       then (let m = fst (ParseInt32 h (arModulo ! 1)) in if m < 0 then 0 else m)
                       else 0);
          tagSize = (if length arModulo = 2 then arModulo ! 0 else tagSize);
          arSize = Split tagSize ''..''
      in if length arSize = 2
         then (fst (ParseInt32 h (arSize ! 0)), fst (ParseInt32 h (arSize ! 1)), tagModulo)
         else (fst (ParseInt32 h tagSize), fst (ParseInt32 h tagSize), tagModulo))"

text \<open>The range rule: \<open>(rangeMin, rangeMax)\<close>.\<close>

definition tag_range :: "helpers \<Rightarrow> field \<Rightarrow> int \<times> int" where
  "tag_range h f =
     (let tagRange = Trim (ToLower (Tag_Get f ''range''));
          arRange = Split tagRange ''..''
      in if length arRange = 2
         then (fst (ParseInt32 h (arRange ! 0)), fst (ParseInt32 h (arRange ! 1)))
         else (fst (ParseInt32 h tagRange), fst (ParseInt32 h tagRange)))"

definition tag_req :: "field \<Rightarrow> string" where
  "tag_req f =
     (let tagReq = Trim (ToLower (Tag_Get f ''req''))
      in if tagReq \<noteq> ''true'' \<and> tagReq \<noteq> ''false'' then [] else tagReq)"

definition sized_types :: "string list" where
  "sized_types = [''a'', ''an'', ''ans'', ''n'', ''regex'', ''h'', ''b64'']"

definition trueList :: "string list" where
  "trueList = [''true'', ''yes'', ''on'', ''1'', ''enabled'']"

section \<open>Setters\<close>

text \<open>
  A setter tag names a method; the prefix \<^verbatim>\<open>base.\<close> (in any letter case) moves the
  call to the enclosing record.
\<close>

definition setter_is_base :: "string \<Rightarrow> bool" where
  "setter_is_base tagSetter = (ToLower (Left tagSetter 5) = ''base.'')"

definition setter_name :: "string \<Rightarrow> string" where
  "setter_name tagSetter =
     (if setter_is_base tagSetter then Right tagSetter (int (length tagSetter) - 5) else tagSetter)"

definition setter_call :: "helpers \<Rightarrow> struct \<Rightarrow> fvalue \<Rightarrow> string \<Rightarrow> string \<Rightarrow> fvalue list option" where
  "setter_call h s v tagSetter text =
     ReflectCall h s (if setter_is_base tagSetter then None else Some v)
       (setter_name tagSetter) [PString text]"

text \<open>
  The setter of a field whose kind is pointer, interface, struct or slice (the same
  statements in \<^verbatim>\<open>UnmarshalJsonToStruct\<close> and in \<^verbatim>\<open>UnmarshalCSVToStruct\<close>): a nil
  pointer is replaced by a new object of its base type, a nil interface by a new object of
  the registered type (an error when none is registered); then the method is invoked and
  its first result is stored when it is a pointer or a slice and the last result is not
  an error.
\<close>

definition is_object_kind :: "fvalue \<Rightarrow> bool" where
  "is_object_kind v = (Kind v = KPtr \<or> Kind v = KInterface \<or> Kind v = KStruct \<or> Kind v = KSlice)"

definition prepare_object :: "helpers \<Rightarrow> field \<Rightarrow> fvalue \<Rightarrow> fvalue \<times> error option" where
  "prepare_object h f v =
     (if Kind v \<noteq> KSlice then
        (case DerefPointersZero h v of (baseType, isNilPtr) \<Rightarrow>
           if isNilPtr then (VPtr (Some (zero_value baseType)), None)
           else if v = VInterface None \<or> v = VError None then
             (case ReflectTypeRegistryGet h (TypeName f) of
                None \<Rightarrow> (v, Some (InterfaceWithoutObject (TypeName f)))
              | Some customType \<Rightarrow> (VInterface (Some (VPtr (Some (zero_value customType)))), None))
           else (v, None))
      else (v, None))"

definition store_result :: "fvalue list \<Rightarrow> fvalue \<Rightarrow> fvalue" where
  "store_result ov v =
     (if length ov = 1 then
        (if Kind (ov ! 0) = KPtr \<or> Kind (ov ! 0) = KSlice then ov ! 0 else v)
      else if length ov > 1 then
        (if \<not> DerefError (last ov) \<and> (Kind (ov ! 0) = KPtr \<or> Kind (ov ! 0) = KSlice)
         then ov ! 0 else v)
      else v)"

definition object_setter :: "helpers \<Rightarrow> struct \<Rightarrow> field \<Rightarrow> string \<Rightarrow> string \<Rightarrow> fvalue \<times> error option" where
  "object_setter h s f tagSetter text =
     (case prepare_object h f (Value f) of
        (v, Some e) \<Rightarrow> (v, Some e)
      | (v, None) \<Rightarrow>
          (case setter_call h s v tagSetter text of
             None \<Rightarrow> (v, None)
           | Some ov \<Rightarrow> (store_result ov v, None)))"

section \<open>UnmarshalJsonToStruct\<close>

text \<open>
  The setter of a field of any other kind in \<^verbatim>\<open>UnmarshalJsonToStruct\<close>: the rendered
  first result replaces the text, unless rendering fails or the last of several results
  is an error.
\<close>

definition json_setter_text :: "helpers \<Rightarrow> struct \<Rightarrow> fvalue \<Rightarrow> string \<Rightarrow> string \<Rightarrow> string \<Rightarrow> string" where
  "json_setter_text h s v tagSetter timeFormat jValue =
     (case setter_call h s v tagSetter jValue of
        None \<Rightarrow> jValue
      | Some results \<Rightarrow>
          if length results = 0 then jValue
          else if length results = 1 \<or> \<not> DerefError (last results) then
            (case ReflectValueToString h (results ! 0) [] [] False False timeFormat False of
               (jv, _, err) \<Rightarrow> if err = None then jv else jValue)
          else jValue)"

text \<open>The bool literal overrides, applied to the text before it is parsed (lines 666 to 684).\<close>

definition json_bool_literal :: "field \<Rightarrow> string \<Rightarrow> string" where
  "json_bool_literal f jValue =
     (let outPrefix = Tag_Get f ''outprefix'';
          boolTrue = Tag_Get f ''booltrue'';
          boolFalse = Tag_Get f ''boolfalse''
      in if boolTrue = '' '' \<and> length outPrefix > 0 \<and> jValue = outPrefix then ''true''
         else if LenTrim boolTrue > 0 \<and> length jValue > 0 \<and> boolTrue = jValue then ''true''
         else if LenTrim boolFalse > 0 \<and> length jValue > 0 \<and> boolFalse = jValue then ''false''
         else jValue)"

text \<open>
  One iteration of the loop over the fields. The result is the new value of the field
  and, when the function returns at this field, the error it returns.
\<close>

definition json_field ::
  "helpers \<Rightarrow> struct \<Rightarrow> string \<Rightarrow> string \<Rightarrow> (string \<times> string) list \<Rightarrow> field \<Rightarrow> fvalue \<times> error option" where
  "json_field h s tagName excludeTagName jsonMap f =
     (if \<not> CanSet f then (Value f, None)
      else let jName = Trim (Tag_Get f tagName) in
      if jName = ''-'' then (Value f, None)
      else if LenTrim excludeTagName > 0 \<and> Trim (Tag_Get f excludeTagName) = ''-'' then (Value f, None)
      else let jName = (if LenTrim jName = 0 then Name f else jName);
               timeFormat = Trim (Tag_Get f ''timeformat'')
      in case map_of jsonMap jName of
           None \<Rightarrow> (Value f, None)
         | Some jRaw \<Rightarrow>
             (let jValue = JsonFromEscaped h jRaw;
                  tagSetter = Trim (Tag_Get f ''setter'')
              in if length jValue > 0 \<and> length tagSetter > 0 \<and> is_object_kind (Value f)
                 then object_setter h s f tagSetter jValue
                 else let jValue = (if length jValue > 0 \<and> length tagSetter > 0
                                    then json_setter_text h s (Value f) tagSetter timeFormat jValue
                                    else jValue)
                      in set_field h (Value f) (json_bool_literal f jValue) timeFormat))"

fun json_loop ::
  "helpers \<Rightarrow> string \<Rightarrow> string \<Rightarrow> (string \<times> string) list \<Rightarrow> struct \<Rightarrow> struct \<Rightarrow> struct \<times> error option" where
  "json_loop h tagName excludeTagName jsonMap done [] = (done, None)"
| "json_loop h tagName excludeTagName jsonMap done (f # fs) =
     (case json_field h (done @ f # fs) tagName excludeTagName jsonMap f of
        (v, Some e) \<Rightarrow> (done @ f\<lparr>Value := v\<rparr> # fs, Some e)
      | (v, None) \<Rightarrow> json_loop h tagName excludeTagName jsonMap (done @ [f\<lparr>Value := v\<rparr>]) fs)"

text \<open>
  The function returns the content of the pointer after the call and the error
  (\<open>None\<close> for nil). The decoder delivers the key/value map as an association list.
\<close>

definition UnmarshalJsonToStruct ::
  "helpers \<Rightarrow> iface \<Rightarrow> string \<Rightarrow> string \<Rightarrow> string \<Rightarrow> iface \<times> error option" where
  "UnmarshalJsonToStruct h inputStructPtr jsonPayload tagName excludeTagName =
     (if inputStructPtr = INil then (inputStructPtr, Some InputRequired)
      else if LenTrim jsonPayload = 0 then (inputStructPtr, Some PayloadRequired)
      else if LenTrim tagName = 0 then (inputStructPtr, Some TagNameRequired)
      else case inputStructPtr of
          INil \<Rightarrow> (inputStructPtr, Some InputRequired)
        | INonPtr \<Rightarrow> (inputStructPtr, Some NotPointer)
        | IPtrNonStruct \<Rightarrow> (inputStructPtr, Some NotStruct)
        | IPtrStruct s \<Rightarrow>
            (case json_Unmarshal h jsonPayload of
               JsonError \<Rightarrow> (inputStructPtr, Some JsonFailed)
             | JsonNil \<Rightarrow> (inputStructPtr, Some JsonMapNil)
             | JsonMap jsonMap \<Rightarrow>
                 if length jsonMap = 0 then (inputStructPtr, Some JsonMapEmpty)
                 else (case json_loop h tagName excludeTagName jsonMap []
                              (default_struct h (clear_struct s)) of
                         (s', err) \<Rightarrow> (IPtrStruct s', err))))"

section \<open>UnmarshalCSVToStruct\<close>

text \<open>
  The bool literal overrides of the CSV reader: a text equal to the trimmed
  \<^verbatim>\<open>booltrue\<close> or \<^verbatim>\<open>boolfalse\<close> literal becomes \<^verbatim>\<open>true\<close> or \<^verbatim>\<open>false\<close>.
\<close>

definition csv_bool_literal :: "field \<Rightarrow> string \<Rightarrow> string" where
  "csv_bool_literal f csvValue =
     (let boolTrue = Trim (Tag_Get f ''booltrue'');
          boolFalse = Trim (Tag_Get f ''boolfalse'')
      in if length boolTrue > 0 \<and> boolTrue = csvValue then ''true''
         else if length boolFalse > 0 \<and> boolFalse = csvValue then ''false''
         else csvValue)"

text \<open>
  Prefix mode: the elements are scanned for the first one that starts with the prefix
  (letter case ignored) while the prefix is not yet in \<^verbatim>\<open>prefixProcessedMap\<close>.
  \<open>None\<close> is \<^verbatim>\<open>notFound\<close>.
\<close>

fun prefix_scan ::
  "helpers \<Rightarrow> field \<Rightarrow> string \<Rightarrow> int \<Rightarrow> (string \<rightharpoonup> string) \<Rightarrow> string list
     \<Rightarrow> (string \<times> (string \<rightharpoonup> string)) option" where
  "prefix_scan h f outPrefix tagPos pm [] = None"
| "prefix_scan h f outPrefix tagPos pm (v # vs) =
     (if ToLower (Left v (int (length outPrefix))) = ToLower outPrefix
         \<and> pm (ToLower outPrefix) = None
      then Some (if length v - length outPrefix = 0
                 then (if Tag_Get f ''booltrue'' = '' '' then ''true'' else [])
                 else csv_bool_literal f (Right v (int (length v) - int (length outPrefix))),
                 pm(ToLower outPrefix \<mapsto> Itoa h tagPos))
      else prefix_scan h f outPrefix tagPos pm vs)"

text \<open>
  The character filter by \<^verbatim>\<open>type\<close> of the reader (lines 1466 to 1489), followed by the
  size rule as the reader applies it (lines 1491 to 1503): the text is cut to
  \<^verbatim>\<open>sizeMax\<close> and then has to be a multiple of \<^verbatim>\<open>tagModulo\<close> long.
\<close>

definition csv_filter :: "helpers \<Rightarrow> string \<Rightarrow> string \<Rightarrow> bool \<Rightarrow> string \<Rightarrow> string" where
  "csv_filter h tagType tagRegEx hasSetter csvValue =
     (if tagType = ''a'' then ExtractAlpha h csvValue
      else if tagType = ''n'' then ExtractNumeric h csvValue
      else if tagType = ''an'' then ExtractAlphaNumeric h csvValue
      else if tagType = ''ans'' then
        (if \<not> hasSetter then ExtractAlphaNumericPrintableSymbols h csvValue else csvValue)
      else if tagType = ''b'' then
        (if StringSliceContains trueList (ToLower csvValue) then ''true'' else ''false'')
      else if tagType = ''regex'' then ExtractByRegex h csvValue tagRegEx
      else if tagType = ''h'' then ExtractHex h csvValue
      else if tagType = ''b64'' then ExtractAlphaNumericPrintableSymbols h csvValue
      else csvValue)"

definition csv_size_rule :: "string \<Rightarrow> string \<Rightarrow> int \<Rightarrow> int \<Rightarrow> string \<Rightarrow> error + string" where
  "csv_size_rule fieldName tagType sizeMax tagModulo csvValue =
     (if tagType \<in> set sized_types then
        (let csvValue = (if sizeMax > 0 \<and> int (length csvValue) > sizeMax
                         then Left csvValue sizeMax else csvValue)
         in if tagModulo > 0 \<and> int (length csvValue) mod tagModulo \<noteq> 0
            then Inl (BlocksOf fieldName tagModulo)
            else Inr csvValue)
      else Inr csvValue)"

text \<open>The setter of a field of primitive kind in the reader: the rendered first result replaces the text.\<close>

definition csv_setter_text :: "helpers \<Rightarrow> struct \<Rightarrow> fvalue \<Rightarrow> string \<Rightarrow> string \<Rightarrow> string \<Rightarrow> string" where
  "csv_setter_text h s v tagSetter timeFormat csvValue =
     (case setter_call h s v tagSetter csvValue of
        None \<Rightarrow> csvValue
      | Some ov \<Rightarrow>
          if length ov = 1 \<or> (length ov > 1 \<and> \<not> DerefError (last ov))
          then fst (ReflectValueToString h (ov ! 0) [] [] False False timeFormat False)
          else csvValue)"

text \<open>
  The comparisons of tag \<^verbatim>\<open>validate\<close> in the reader. A failure either clears the
  record and returns the error, or returns the error at once.
\<close>

datatype verdict = Passed | FailedCleared error | FailedAsIs error

definition lower_member :: "string \<Rightarrow> string list \<Rightarrow> bool" where
  "lower_member v valAr = (ToLower v \<in> set (map ToLower valAr))"

definition csv_validate ::
  "helpers \<Rightarrow> string \<Rightarrow> string \<Rightarrow> string \<Rightarrow> string \<Rightarrow> string \<Rightarrow> verdict" where
  "csv_validate h fieldName tagReq valComp valData csvValue =
     (let relevant = (length csvValue > 0 \<or> tagReq = ''true'') in
      if valComp = ''=='' then
        (let valAr = Split valData ''||'' in
         if length valAr \<le> 1 then
           (if ToLower csvValue \<noteq> ToLower valData \<and> relevant
            then FailedCleared (ValidationFailed fieldName valData csvValue) else Passed)
         else
           (if \<not> lower_member csvValue valAr \<and> relevant
            then FailedAsIs (ValidationFailed fieldName (ReplaceAll valData ''||'' '' or '') csvValue)
            else Passed))
      else if valComp = ''!='' then
        (let valAr = Split valData ''&&'' in
         if length valAr \<le> 1 then
           (if ToLower csvValue = ToLower valData \<and> relevant
            then FailedCleared (ValidationFailed fieldName valData csvValue) else Passed)
         else
           (if lower_member csvValue valAr \<and> relevant
            then FailedAsIs (ValidationFailed fieldName (ReplaceAll valData ''&&'' '' and '') csvValue)
            else Passed))
      else if valComp = ''<='' then
        (case ParseFloat64 h valData of (valNum, valOk) \<Rightarrow>
           if valOk \<and> fst (ParseFloat64 h csvValue) > valNum \<and> relevant
           then FailedCleared (ValidationFailed fieldName valData csvValue) else Passed)
      else if valComp = ''<<'' then
        (case ParseFloat64 h valData of (valNum, valOk) \<Rightarrow>
           if valOk \<and> fst (ParseFloat64 h csvValue) \<ge> valNum \<and> relevant
           then FailedCleared (ValidationFailed fieldName valData csvValue) else Passed)
      else if valComp = ''>='' then
        (case ParseFloat64 h valData of (valNum, valOk) \<Rightarrow>
           if valOk \<and> fst (ParseFloat64 h csvValue) < valNum \<and> relevant
           then FailedCleared (ValidationFailed fieldName valData csvValue) else Passed)
      else if valComp = ''>>'' then
        (case ParseFloat64 h valData of (valNum, valOk) \<Rightarrow>
           if valOk \<and> fst (ParseFloat64 h csvValue) \<le> valNum \<and> relevant
           then FailedCleared (ValidationFailed fieldName valData csvValue) else Passed)
      else Passed)"

text \<open>
  The outcome of one iteration of the loop of the reader: go on with the next field
  (with the new value of this field and the new prefix map), return nil, return an
  error leaving the record as it is (with the new value of this field), or clear the
  record and return an error.
\<close>

datatype csv_step =
    Next fvalue "string \<rightharpoonup> string"
  | ReturnNil
  | ReturnErr fvalue error
  | ClearErr error

text \<open>The named validator \<^verbatim>\<open>:=Xyz\<close>: the field is set first, then the method of the record decides.\<close>

definition csv_validator :: "helpers \<Rightarrow> struct \<Rightarrow> field \<Rightarrow> string \<Rightarrow> string \<Rightarrow> string
    \<Rightarrow> (string \<rightharpoonup> string) \<Rightarrow> csv_step" where
  "csv_validator h s f valData csvValue timeFormat pm =
     (case set_field h (Value f) csvValue timeFormat of
        (v, Some e) \<Rightarrow> ReturnErr v e
      | (v, None) \<Rightarrow>
          (case ReflectCall h s None valData [] of
             None \<Rightarrow> Next v pm
           | Some retV \<Rightarrow>
               if length retV > 0 then
                 (if retV ! 0 = VBool False then ClearErr (ValidationFalse (Name f) valData)
                  else if DerefError (retV ! 0) then ClearErr (ValidationError (Name f) valData)
                  else Next v pm)
               else Next v pm))"

text \<open>
  The part of the iteration after the text of the field has been found (from line 1448),
  in the order of the source: for a field of primitive kind the filter and the size
  rule, the setter, tag \<^verbatim>\<open>validate\<close> and the conversion into the field.
\<close>

definition csv_sized :: "helpers \<Rightarrow> field \<Rightarrow> string \<Rightarrow> error + string" where
  "csv_sized h f csvValue =
     (if Tag_Get f ''pos'' \<noteq> ''-''
      then csv_size_rule (Name f) (tag_type f) (fst (snd (tag_size h f))) (snd (snd (tag_size h f)))
             (csv_filter h (tag_type f) (tag_regex f) (LenTrim (Trim (Tag_Get f ''setter'')) > 0) csvValue)
      else Inr csvValue)"

definition csv_after_setter :: "helpers \<Rightarrow> struct \<Rightarrow> field \<Rightarrow> string \<Rightarrow> string" where
  "csv_after_setter h s f csvValue =
     (let tagSetter = Trim (Tag_Get f ''setter'')
      in if LenTrim tagSetter > 0
         then csv_setter_text h s (Value f) tagSetter (Trim (Tag_Get f ''timeformat'')) csvValue
         else csvValue)"

definition csv_checked :: "helpers \<Rightarrow> field \<Rightarrow> string \<Rightarrow> verdict" where
  "csv_checked h f csvValue =
     (let valData = Trim (Tag_Get f ''validate'')
      in if length valData \<ge> 3
         then csv_validate h (Name f) (tag_req f) (Left valData 2)
                (Right valData (int (length valData) - 2)) csvValue
         else Passed)"

definition csv_validated :: "helpers \<Rightarrow> struct \<Rightarrow> field \<Rightarrow> string \<Rightarrow> (string \<rightharpoonup> string) \<Rightarrow> csv_step" where
  "csv_validated h s f csvValue pm =
     (let valData = Trim (Tag_Get f ''validate'');
          timeFormat = Trim (Tag_Get f ''timeformat'')
      in if length valData \<ge> 3 \<and> Left valData 2 = '':=''
         then csv_validator h s f (Right valData (int (length valData) - 2)) csvValue timeFormat pm
         else (case csv_checked h f csvValue of
                 FailedCleared e \<Rightarrow> ClearErr e
               | FailedAsIs e \<Rightarrow> ReturnErr (Value f) e
               | Passed \<Rightarrow>
                   (case set_field h (Value f) csvValue timeFormat of
                      (v, Some e) \<Rightarrow> ReturnErr v e
                    | (v, None) \<Rightarrow> Next v pm)))"

definition csv_apply :: "helpers \<Rightarrow> struct \<Rightarrow> field \<Rightarrow> string \<Rightarrow> (string \<rightharpoonup> string) \<Rightarrow> csv_step" where
  "csv_apply h s f csvValue pm =
     (let tagSetter = Trim (Tag_Get f ''setter'');
          timeFormat = Trim (Tag_Get f ''timeformat'')
      in if \<not> is_object_kind (Value f) then
           (case csv_sized h f csvValue of
              Inl e \<Rightarrow> ReturnErr (Value f) e
            | Inr csvValue \<Rightarrow> csv_validated h s f (csv_after_setter h s f csvValue) pm)
         else if LenTrim tagSetter > 0 then
           (case object_setter h s f tagSetter csvValue of
              (v, Some e) \<Rightarrow> ReturnErr v e
            | (v, None) \<Rightarrow> Next v pm)
         else
           (case set_field h (Value f) csvValue timeFormat of
              (v, Some e) \<Rightarrow> ReturnErr v e
            | (v, None) \<Rightarrow> Next v pm))"

text \<open>One iteration: the position tag, then the text of the field by position or by prefix.\<close>

definition csv_field :: "helpers \<Rightarrow> struct \<Rightarrow> string list \<Rightarrow> (string \<rightharpoonup> string) \<Rightarrow> field \<Rightarrow> csv_step" where
  "csv_field h s csvElements pm f =
     (if \<not> CanSet f then Next (Value f) pm
      else let tagPosBuf = Tag_Get f ''pos'';
               tagPos = fst (ParseInt32 h tagPosBuf);
               ok = snd (ParseInt32 h tagPosBuf);
               csvLen = int (length csvElements);
               outPrefix = Trim (Tag_Get f ''outprefix'')
      in if \<not> ok \<and> (tagPosBuf \<noteq> ''-'' \<or> LenTrim (Tag_Get f ''setter'') = 0) then Next (Value f) pm
         else if ok \<and> tagPos < 0 then Next (Value f) pm
         else if tagPosBuf = ''-'' then csv_apply h s f [] pm
         else if LenTrim outPrefix = 0 then
           (if tagPos > csvLen - 1 then ReturnNil
            else csv_apply h s f (csv_bool_literal f (csvElements ! nat tagPos)) pm)
         else
           (case prefix_scan h f outPrefix tagPos pm csvElements of
              None \<Rightarrow> Next (Value f) pm
            | Some (csvValue, pm') \<Rightarrow> csv_apply h s f csvValue pm'))"

fun csv_loop ::
  "helpers \<Rightarrow> string list \<Rightarrow> (string \<rightharpoonup> string) \<Rightarrow> struct \<Rightarrow> struct \<Rightarrow> struct \<times> error option" where
  "csv_loop h csvElements pm done [] = (done, None)"
| "csv_loop h csvElements pm done (f # fs) =
     (case csv_field h (done @ f # fs) csvElements pm f of
        Next v pm' \<Rightarrow> csv_loop h csvElements pm' (done @ [f\<lparr>Value := v\<rparr>]) fs
      | ReturnNil \<Rightarrow> (done @ f # fs, None)
      | ReturnErr v e \<Rightarrow> (done @ f\<lparr>Value := v\<rparr> # fs, Some e)
      | ClearErr e \<Rightarrow> (clear_struct (done @ f # fs), Some e))"

text \<open>
  The function takes the delimiter and the optional custom splitter, and returns the
  content of the pointer after the call and the error (\<open>None\<close> for nil).
\<close>

definition UnmarshalCSVToStruct ::
  "helpers \<Rightarrow> iface \<Rightarrow> string \<Rightarrow> string \<Rightarrow> (string \<Rightarrow> string list) option \<Rightarrow> iface \<times> error option" where
  "UnmarshalCSVToStruct h inputStructPtr csvPayload csvDelimiter customDelimiterParserFunc =
     (if inputStructPtr = INil then (inputStructPtr, Some InputRequired)
      else if LenTrim csvPayload = 0 then (inputStructPtr, Some PayloadRequired)
      else if length csvDelimiter = 0 \<and> customDelimiterParserFunc = None
        then (inputStructPtr, Some DelimiterRequired)
      else case inputStructPtr of
          INil \<Rightarrow> (inputStructPtr, Some InputRequired)
        | INonPtr \<Rightarrow> (inputStructPtr, Some NotPointer)
        | IPtrNonStruct \<Rightarrow> (inputStructPtr, Some NotStruct)
        | IPtrStruct s \<Rightarrow>
            (let csvElements = (if length csvDelimiter > 0 then Split csvPayload csvDelimiter
                                else (case customDelimiterParserFunc of
                                        Some parse \<Rightarrow> parse csvPayload | None \<Rightarrow> []))
             in if length csvElements = 0 then (inputStructPtr, Some ZeroElements)
                else (case csv_loop h csvElements Map.empty [] (default_struct h (clear_struct s)) of
                        (s', err) \<Rightarrow> (IPtrStruct s', err))))"

section \<open>The marshal direction\<close>

subsection \<open>Statements shared by the three marshal functions\<close>

text \<open>
  The rendering flags of a field, read through \<^verbatim>\<open>GetStructTagsValueSlice\<close> (which
  returns the values of the named tags in the order asked for).
\<close>

record flags =
  boolTrue :: string
  boolFalse :: string
  skipBlank :: bool
  skipZero :: bool
  timeFormat :: string
  zeroBlank :: bool

definition tag_flags :: "helpers \<Rightarrow> field \<Rightarrow> flags" where
  "tag_flags h f =
     \<lparr> boolTrue = Tag_Get f ''booltrue'',
       boolFalse = Tag_Get f ''boolfalse'',
       skipBlank = fst (ParseBool h (Tag_Get f ''skipblank'')),
       skipZero = fst (ParseBool h (Tag_Get f ''skipzero'')),
       timeFormat = Tag_Get f ''timeformat'',
       zeroBlank = fst (ParseBool h (Tag_Get f ''zeroblank'')) \<rparr>"

definition render :: "helpers \<Rightarrow> flags \<Rightarrow> fvalue \<Rightarrow> string \<times> bool \<times> error option" where
  "render h fl v =
     (case ReflectValueToString h v (boolTrue fl) (boolFalse fl) (skipBlank fl) (skipZero fl)
             (timeFormat fl) (zeroBlank fl) of
        (buf, skip, e) \<Rightarrow> (buf, skip, map_option Failure e))"

text \<open>
  The getter: the method named by tag \<^verbatim>\<open>getter\<close> is invoked on the field value, or on
  the record after the prefix \<^verbatim>\<open>base.\<close>; with the suffix \<^verbatim>\<open>(x)\<close> it receives the
  rendered field value (or the slice). Its first result replaces the value to render.
\<close>

definition getter_value :: "helpers \<Rightarrow> struct \<Rightarrow> field \<Rightarrow> flags \<Rightarrow> fvalue" where
  "getter_value h s f fl =
     (let v = Value f; tagGetter = Trim (Tag_Get f ''getter'') in
      if length tagGetter > 0 then
        (let isBase = (ToLower (Left tagGetter 5) = ''base.'');
             tagGetter = (if isBase then Right tagGetter (int (length tagGetter) - 5) else tagGetter);
             useParam = (ToLower (Right tagGetter 3) = ''(x)'');
             args = (if useParam then
                       (case v of
                          VSlice xs \<Rightarrow> if length xs > 0 then [PSlice xs] else [PString []]
                        | _ \<Rightarrow> [PString (fst (render h fl v))])
                     else []);
             tagGetter = (if useParam then Left tagGetter (int (length tagGetter) - 3) else tagGetter)
         in case ReflectCall h s (if isBase then None else Some v) tagGetter args of
              None \<Rightarrow> v
            | Some ov \<Rightarrow> if length ov > 0 then ov ! 0 else v)
      else v)"

text \<open>
  The claim of a unique group, kept in \<^verbatim>\<open>uniqueMap\<close> under the lower-cased group id:
  whether the group of the field is taken, taking it, and giving it back.
\<close>

definition unique_id :: "field \<Rightarrow> string" where
  "unique_id f = Trim (Tag_Get f ''uniqueid'')"

definition unique_taken :: "(string \<rightharpoonup> string) \<Rightarrow> field \<Rightarrow> bool" where
  "unique_taken um f = (length (unique_id f) > 0 \<and> um (ToLower (unique_id f)) \<noteq> None)"

definition unique_claim :: "(string \<rightharpoonup> string) \<Rightarrow> field \<Rightarrow> (string \<rightharpoonup> string)" where
  "unique_claim um f =
     (if length (unique_id f) > 0 then um(ToLower (unique_id f) \<mapsto> Name f) else um)"

definition unique_release :: "(string \<rightharpoonup> string) \<Rightarrow> field \<Rightarrow> (string \<rightharpoonup> string)" where
  "unique_release um f =
     (if length (unique_id f) > 0 then um(ToLower (unique_id f) := None) else um)"

text \<open>
  The unknown enum value: a field of kind \<^verbatim>\<open>int\<close> holding 0 whose rendered text is
  \<^verbatim>\<open>unknown\<close> is rendered as its default, and without a default as blank; in a unique
  group a blank one gives the claim back and is left out (\<open>None\<close>).
\<close>

definition unknown_enum :: "field \<Rightarrow> string \<Rightarrow> bool" where
  "unknown_enum f buf = (Value f = VInt WInt 0 \<and> ToLower buf = ''unknown'')"

definition unknown_text :: "(string \<rightharpoonup> string) \<Rightarrow> field \<Rightarrow> string \<Rightarrow> string option" where
  "unknown_text um f buf =
     (let defVal = Tag_Get f ''def'' in
      if unknown_enum f buf then
        (if length defVal > 0 then Some defVal
         else if length (unique_id f) > 0 \<and> um (ToLower (unique_id f)) \<noteq> None then None
         else Some [])
      else Some buf)"

subsection \<open>MarshalStructToQueryParams and MarshalStructToJson\<close>

text \<open>
  Both functions run the same statements on a field up to the rendered text: the output
  name, the two exclusions, the unique group, the getter, the rendering and the unknown
  enum value. The outcome is that the field is left out, or its output name and text.
\<close>

datatype walk_step = Skip "string \<rightharpoonup> string" | Render "string \<rightharpoonup> string" string string

definition walk_field ::
  "helpers \<Rightarrow> struct \<Rightarrow> string \<Rightarrow> string \<Rightarrow> (string \<rightharpoonup> string) \<Rightarrow> field \<Rightarrow> walk_step" where
  "walk_field h s tagName excludeTagName um f =
     (let tag = Tag_Get f tagName;
          tag = (if LenTrim tag = 0 then Name f else tag)
      in if tag = ''-'' then Skip um
         else if LenTrim excludeTagName > 0 \<and> Trim (Tag_Get f excludeTagName) = ''-'' then Skip um
         else if unique_taken um f then Skip um
         else (let um = unique_claim um f;
                   fl = tag_flags h f
               in case render h fl (getter_value h s f fl) of
                    (buf, skip, err) \<Rightarrow>
                      if err \<noteq> None \<or> skip then Skip (unique_release um f)
                      else (case unknown_text um f buf of
                              None \<Rightarrow> Skip (unique_release um f)
                            | Some buf \<Rightarrow> Render um tag buf)))"

definition qp_text :: "helpers \<Rightarrow> field \<Rightarrow> string \<Rightarrow> string" where
  "qp_text h f buf =
     (let fl = tag_flags h f; outPrefix = Tag_Get f ''outprefix''; defVal = Tag_Get f ''def'' in
      if boolFalse fl = '' '' \<and> length outPrefix > 0 \<and> buf = ''false'' then []
      else (let buf = (if length buf = 0 \<and> length defVal > 0 then defVal else buf)
            in if skipBlank fl \<and> LenTrim buf = 0 then []
               else if skipZero fl \<and> buf = ''0'' then []
               else outPrefix @ buf))"

definition json_text :: "helpers \<Rightarrow> field \<Rightarrow> string \<Rightarrow> string" where
  "json_text h f buf =
     (let fl = tag_flags h f; outPrefix = Tag_Get f ''outprefix''; defVal = Tag_Get f ''def'';
          buf = (if boolTrue fl = '' '' \<and> length buf = 0 \<and> length outPrefix > 0 then outPrefix @ defVal
                 else if boolFalse fl = '' '' \<and> buf = ''false'' \<and> length outPrefix > 0 then []
                 else if length defVal > 0 \<and> length buf = 0 then outPrefix @ defVal
                 else buf);
          buf = ReplaceAll buf [CHR 0x22] [CHR 0x5C, CHR 0x22];
          buf = ReplaceAll buf [CHR 0x27] [CHR 0x5C, CHR 0x27]
      in buf)"

text \<open>
  The loops. Next to the output text they return the names of the fields that were
  written to it, in order; this list is not a variable of the Go code, it records
  which iterations reached the statement that appends to \<^verbatim>\<open>output\<close>.
\<close>

fun qp_loop ::
  "helpers \<Rightarrow> struct \<Rightarrow> string \<Rightarrow> string \<Rightarrow> (string \<rightharpoonup> string) \<Rightarrow> string \<Rightarrow> field list
     \<Rightarrow> string \<times> string list" where
  "qp_loop h s tagName excludeTagName um output [] = (output, [])"
| "qp_loop h s tagName excludeTagName um output (f # fs) =
     (case walk_field h s tagName excludeTagName um f of
        Skip um' \<Rightarrow> qp_loop h s tagName excludeTagName um' output fs
      | Render um' tag buf \<Rightarrow>
          (case qp_loop h s tagName excludeTagName um'
                  ((if LenTrim output > 0 then output @ ''&'' else output)
                     @ tag @ ''='' @ PathEscape h (qp_text h f buf)) fs of
             (out, written) \<Rightarrow> (out, Name f # written)))"

fun json_out_loop ::
  "helpers \<Rightarrow> struct \<Rightarrow> string \<Rightarrow> string \<Rightarrow> (string \<rightharpoonup> string) \<Rightarrow> string \<Rightarrow> field list
     \<Rightarrow> string \<times> string list" where
  "json_out_loop h s tagName excludeTagName um output [] = (output, [])"
| "json_out_loop h s tagName excludeTagName um output (f # fs) =
     (case walk_field h s tagName excludeTagName um f of
        Skip um' \<Rightarrow> json_out_loop h s tagName excludeTagName um' output fs
      | Render um' tag buf \<Rightarrow>
          (case json_out_loop h s tagName excludeTagName um'
                  ((if LenTrim output > 0 then output @ '', '' else output)
                     @ [CHR 0x22] @ tag @ [CHR 0x22] @ '':'' @ [CHR 0x22]
                     @ JsonToEscaped h (json_text h f buf) @ [CHR 0x22]) fs of
             (out, written) \<Rightarrow> (out, Name f # written)))"

definition MarshalStructToQueryParams ::
  "helpers \<Rightarrow> iface \<Rightarrow> string \<Rightarrow> string \<Rightarrow> string \<times> error option" where
  "MarshalStructToQueryParams h inputStructPtr tagName excludeTagName =
     (if inputStructPtr = INil then ([], Some InputRequired)
      else if LenTrim tagName = 0 then ([], Some TagNameRequired)
      else case inputStructPtr of
          INil \<Rightarrow> ([], Some InputRequired)
        | INonPtr \<Rightarrow> ([], Some NotPointer)
        | IPtrNonStruct \<Rightarrow> ([], Some NotStruct)
        | IPtrStruct s \<Rightarrow>
            (let output = fst (qp_loop h s tagName excludeTagName Map.empty [] s)
             in if LenTrim output = 0 then ([], Some YieldedBlank) else (output, None)))"

definition MarshalStructToJson ::
  "helpers \<Rightarrow> iface \<Rightarrow> string \<Rightarrow> string \<Rightarrow> string \<times> error option" where
  "MarshalStructToJson h inputStructPtr tagName excludeTagName =
     (if inputStructPtr = INil then ([], Some InputRequired)
      else if LenTrim tagName = 0 then ([], Some TagNameRequired)
      else case inputStructPtr of
          INil \<Rightarrow> ([], Some InputRequired)
        | INonPtr \<Rightarrow> ([], Some NotPointer)
        | IPtrNonStruct \<Rightarrow> ([], Some NotStruct)
        | IPtrStruct s \<Rightarrow>
            (let output = fst (json_out_loop h s tagName excludeTagName Map.empty [] s)
             in if LenTrim output = 0 then ([], Some YieldedBlank)
                else (''{'' @ output @ ''}'', None)))"

subsection \<open>MarshalStructToCSV\<close>

text \<open>
  The outcome of one iteration of the writer: the field is left out, a text is stored
  in the slot \<^verbatim>\<open>csvList[tagPos]\<close>, or the function returns an error.
\<close>

datatype out_step =
    Omit "string \<rightharpoonup> string"
  | Store "string \<rightharpoonup> string" int string
  | Abort error

text \<open>The size rule of the writer (lines 2069 to 2085).\<close>

definition out_size_rule :: "string \<Rightarrow> string \<Rightarrow> int \<Rightarrow> int \<Rightarrow> int \<Rightarrow> string \<Rightarrow> error + string" where
  "out_size_rule fieldName tagType sizeMin sizeMax tagModulo fv =
     (if tagType \<in> set sized_types then
        (if sizeMin > 0 \<and> length fv > 0 \<and> int (length fv) < sizeMin
         then Inl (MinLength fieldName sizeMin)
         else (let fv = (if sizeMax > 0 \<and> int (length fv) > sizeMax then Left fv sizeMax else fv)
               in if tagModulo > 0 \<and> int (length fv) mod tagModulo \<noteq> 0
                  then Inl (BlocksOf fieldName tagModulo)
                  else Inr fv))
      else Inr fv)"

text \<open>The range rule of the writer, for type \<^verbatim>\<open>n\<close> (lines 2087 to 2105).\<close>

definition out_range_rule ::
  "helpers \<Rightarrow> string \<Rightarrow> string \<Rightarrow> string \<Rightarrow> int \<Rightarrow> int \<Rightarrow> string \<Rightarrow> error option" where
  "out_range_rule h fieldName tagType tagReq rangeMin rangeMax fv =
     (if tagType = ''n'' then
        (case ParseInt32 h fv of (n, ok) \<Rightarrow>
           if ok then
             (if rangeMin > 0 \<and> n < rangeMin \<and> \<not> (n = 0 \<and> tagReq \<noteq> ''true'')
              then Some (RangeMinimum fieldName rangeMin)
              else if rangeMax > 0 \<and> n > rangeMax then Some (RangeMaximum fieldName rangeMax)
              else None)
           else None)
      else None)"

text \<open>The character filter of the writer; \<open>None\<close> stores a blank slot and goes on.\<close>

definition out_filter :: "helpers \<Rightarrow> string \<Rightarrow> string \<Rightarrow> bool \<Rightarrow> flags \<Rightarrow> string \<Rightarrow> string option" where
  "out_filter h tagType tagRegEx hasGetter fl fv =
     (if tagType = ''a'' then Some (ExtractAlpha h fv)
      else if tagType = ''n'' then Some (ExtractNumeric h fv)
      else if tagType = ''an'' then Some (ExtractAlphaNumeric h fv)
      else if tagType = ''ans'' then
        Some (if \<not> hasGetter then ExtractAlphaNumericPrintableSymbols h fv else fv)
      else if tagType = ''b'' then
        (if length (boolTrue fl) = 0 \<and> length (boolFalse fl) = 0 then
           Some (if StringSliceContains trueList (ToLower fv) then ''true'' else ''false'')
         else if Trim (boolTrue fl) = Trim (boolFalse fl) \<and> fv = ''false'' then None
         else Some fv)
      else if tagType = ''regex'' then Some (ExtractByRegex h fv tagRegEx)
      else if tagType = ''h'' then Some (ExtractHex h fv)
      else if tagType = ''b64'' then Some (ExtractAlphaNumericPrintableSymbols h fv)
      else Some fv)"

text \<open>The comparisons and the named validator of tag \<^verbatim>\<open>validate\<close> in the writer.\<close>

definition out_validate ::
  "helpers \<Rightarrow> struct \<Rightarrow> string \<Rightarrow> string \<Rightarrow> string \<Rightarrow> string \<Rightarrow> string \<Rightarrow> error option" where
  "out_validate h s fieldName tagReq valComp valData fv =
     (let relevant = (length fv > 0 \<or> tagReq = ''true'') in
      if valComp = ''=='' then
        (let valAr = Split valData ''||'' in
         if length valAr \<le> 1 then
           (if ToLower fv \<noteq> ToLower valData \<and> relevant
            then Some (ValidationFailed fieldName valData fv) else None)
         else
           (if \<not> lower_member fv valAr \<and> relevant
            then Some (ValidationFailed fieldName (ReplaceAll valData ''||'' '' or '') fv)
            else None))
      else if valComp = ''!='' then
        (let valAr = Split valData ''&&'' in
         if length valAr \<le> 1 then
           (if ToLower fv = ToLower valData \<and> relevant
            then Some (ValidationFailed fieldName valData fv) else None)
         else
           (if lower_member fv valAr \<and> relevant
            then Some (ValidationFailed fieldName (ReplaceAll valData ''&&'' '' and '') fv)
            else None))
      else if valComp = ''<='' then
        (case ParseFloat64 h valData of (valNum, valOk) \<Rightarrow>
           if valOk \<and> fst (ParseFloat64 h fv) > valNum \<and> relevant
           then Some (ValidationFailed fieldName valData fv) else None)
      else if valComp = ''<<'' then
        (case ParseFloat64 h valData of (valNum, valOk) \<Rightarrow>
           if valOk \<and> fst (ParseFloat64 h fv) \<ge> valNum \<and> relevant
           then Some (ValidationFailed fieldName valData fv) else None)
      else if valComp = ''>='' then
        (case ParseFloat64 h valData of (valNum, valOk) \<Rightarrow>
           if valOk \<and> fst (ParseFloat64 h fv) < valNum \<and> relevant
           then Some (ValidationFailed fieldName valData fv) else None)
      else if valComp = ''>>'' then
        (case ParseFloat64 h valData of (valNum, valOk) \<Rightarrow>
           if valOk \<and> fst (ParseFloat64 h fv) \<le> valNum \<and> relevant
           then Some (ValidationFailed fieldName valData fv) else None)
      else if valComp = '':='' then
        (case ReflectCall h s None valData [] of
           None \<Rightarrow> None
         | Some retV \<Rightarrow>
             if length retV > 0 then
               (if retV ! 0 = VBool False then Some (ValidationFalse fieldName valData)
                else if DerefError (retV ! 0) then Some (ValidationError fieldName valData)
                else None)
             else None)
      else None)"

text \<open>The end of an iteration: tag \<^verbatim>\<open>validate\<close>, then the text is stored in its slot.\<close>

definition out_store ::
  "helpers \<Rightarrow> struct \<Rightarrow> field \<Rightarrow> flags \<Rightarrow> (string \<rightharpoonup> string) \<Rightarrow> int \<Rightarrow> string \<Rightarrow> out_step" where
  "out_store h s f fl um tagPos fv =
     (let valData = Trim (Tag_Get f ''validate'');
          outPrefix = Tag_Get f ''outprefix''
      in case (if length valData \<ge> 3
               then out_validate h s (Name f) (tag_req f) (Left valData 2)
                      (Right valData (int (length valData) - 2)) fv
               else None) of
           Some e \<Rightarrow> Abort e
         | None \<Rightarrow>
             if skipBlank fl \<and> LenTrim fv = 0 then Store um tagPos []
             else if skipZero fl \<and> fv = ''0'' then Store um tagPos []
             else Store um tagPos (outPrefix @ fv))"

text \<open>The checks on the text of a field that is not a slice (lines 2020 to 2110).\<close>

definition out_check ::
  "helpers \<Rightarrow> struct \<Rightarrow> field \<Rightarrow> flags \<Rightarrow> (string \<rightharpoonup> string) \<Rightarrow> int \<Rightarrow> bool \<Rightarrow> string \<Rightarrow> out_step" where
  "out_check h s f fl um tagPos hasGetter origFv =
     (let defVal = Tag_Get f ''def''; outPrefix = Tag_Get f ''outprefix'' in
      case out_filter h (tag_type f) (tag_regex f) hasGetter fl origFv of
        None \<Rightarrow> Store um tagPos []
      | Some fv \<Rightarrow>
          if boolFalse fl = '' '' \<and> origFv = ''false'' \<and> length outPrefix > 0 then Store um tagPos []
          else (let fv = (if length fv = 0 \<and> length defVal > 0 then defVal else fv)
                in case out_size_rule (Name f) (tag_type f) (fst (tag_size h f))
                          (fst (snd (tag_size h f))) (snd (snd (tag_size h f))) fv of
                     Inl e \<Rightarrow> Abort e
                   | Inr fv \<Rightarrow>
                       (case out_range_rule h (Name f) (tag_type f) (tag_req f)
                               (fst (tag_range h f)) (snd (tag_range h f)) fv of
                          Some e \<Rightarrow> Abort e
                        | None \<Rightarrow>
                            if tag_req f = ''true'' \<and> length fv = 0 then Abort (RequiredField (Name f))
                            else out_store h s f fl um tagPos fv)))"

definition out_field ::
  "helpers \<Rightarrow> struct \<Rightarrow> int \<Rightarrow> (string \<rightharpoonup> string) \<Rightarrow> field \<Rightarrow> out_step" where
  "out_field h s csvLen um f =
     (if \<not> CanSet f then Omit um
      else case ParseInt32 h (Tag_Get f ''pos'') of (tagPos, ok) \<Rightarrow>
        if \<not> ok then Omit um
        else if tagPos < 0 then Omit um
        else if tagPos > csvLen - 1 then Omit um
        else if unique_taken um f then Omit um
        else (let um = unique_claim um f;
                  fl = tag_flags h f;
                  hasGetter = (length (Trim (Tag_Get f ''getter'')) > 0)
              in case render h fl (getter_value h s f fl) of
                   (fv, skip, e) \<Rightarrow>
                     (case e of
                        Some err \<Rightarrow> Abort err
                      | None \<Rightarrow>
                          if skip then Omit (unique_release um f)
                          else (case unknown_text um f fv of
                                  None \<Rightarrow> Omit (unique_release um f)
                                | Some fv \<Rightarrow>
                                    if Kind (Value f) \<noteq> KSlice
                                    then out_check h s f fl um tagPos hasGetter fv
                                    else out_store h s f fl um tagPos fv))))"

text \<open>
  The loop of the writer over the fields, with the slots and, as for the other two
  functions, the names of the fields whose iteration stored a slot.
\<close>

fun out_loop ::
  "helpers \<Rightarrow> struct \<Rightarrow> (string \<rightharpoonup> string) \<Rightarrow> string list \<Rightarrow> field list
     \<Rightarrow> error + (string list \<times> string list)" where
  "out_loop h s um csvList [] = Inr (csvList, [])"
| "out_loop h s um csvList (f # fs) =
     (case out_field h s (int (length csvList)) um f of
        Omit um' \<Rightarrow> out_loop h s um' csvList fs
      | Abort e \<Rightarrow> Inl e
      | Store um' tagPos fv \<Rightarrow>
          (case out_loop h s um' (csvList[nat tagPos := fv]) fs of
             Inl e \<Rightarrow> Inl e
           | Inr (slots, written) \<Rightarrow> Inr (slots, Name f # written)))"

text \<open>The final loop joins the slots that were set.\<close>

fun join_slots :: "string \<Rightarrow> string \<Rightarrow> string list \<Rightarrow> string" where
  "join_slots csvDelimiter csvPayload [] = csvPayload"
| "join_slots csvDelimiter csvPayload (v # vs) =
     (if v \<noteq> ''{?}''
      then join_slots csvDelimiter
             ((if LenTrim csvPayload > 0 then csvPayload @ csvDelimiter else csvPayload) @ v) vs
      else join_slots csvDelimiter csvPayload vs)"

definition MarshalStructToCSV :: "helpers \<Rightarrow> iface \<Rightarrow> string \<Rightarrow> string \<times> error option" where
  "MarshalStructToCSV h inputStructPtr csvDelimiter =
     (case inputStructPtr of
        INil \<Rightarrow> ([], Some InputRequired)
      | INonPtr \<Rightarrow> ([], Some NotPointer)
      | IPtrNonStruct \<Rightarrow> ([], Some NotStruct)
      | IPtrStruct s \<Rightarrow>
          if \<not> IsStructFieldSet h inputStructPtr \<and> StructNonDefaultRequiredFieldsCount inputStructPtr > 0
          then ([], None)
          else (case out_loop h s Map.empty (replicate (length s) ''{?}'') s of
                  Inl e \<Rightarrow> ([], Some e)
                | Inr (csvList, written) \<Rightarrow> (join_slots csvDelimiter [] csvList, None)))"

section \<open>A reference instance of the helpers\<close>

text \<open>
  Modelled from the spec: the helpers that are parameters above (primitive parsing and
  rendering, character-class extraction, the textual rendering of a field value and its
  inverse, escaping and the JSON decoder), none of which is in the files under
  verification. The instance follows the words of the spec: strings pass through,
  booleans render through the override literals or as \<^verbatim>\<open>true\<close> and \<^verbatim>\<open>false\<close>,
  integers render in decimal, nullable wrappers render their payload when valid and
  are blank otherwise, and the skip flags leave a blank or zero value out. It gives the
  general theorems concrete inputs to run on. Floats are whole numbers here, an instant
  is written as its count, there are no methods and no registered types, and the
  decoder reads one flat JSON object.
\<close>

definition digit_of :: "char \<Rightarrow> nat option" where
  "digit_of c = (let n = (of_char c :: nat) in if 48 \<le> n \<and> n \<le> 57 then Some (n - 48) else None)"

fun digits_value :: "nat \<Rightarrow> string \<Rightarrow> nat option" where
  "digits_value acc [] = Some acc"
| "digits_value acc (c # cs) =
     (case digit_of c of None \<Rightarrow> None | Some d \<Rightarrow> digits_value (10 * acc + d) cs)"

definition std_ParseInt :: "string \<Rightarrow> int \<times> bool" where
  "std_ParseInt s =
     (case Trim s of
        [] \<Rightarrow> (0, False)
      | c # cs \<Rightarrow>
          if c = CHR ''-'' \<or> c = CHR ''+'' then
            (if cs = [] then (0, False)
             else case digits_value 0 cs of
                    None \<Rightarrow> (0, False)
                  | Some n \<Rightarrow> (if c = CHR ''-'' then - int n else int n, True))
          else (case digits_value 0 (c # cs) of None \<Rightarrow> (0, False) | Some n \<Rightarrow> (int n, True)))"

fun nat_digits :: "nat \<Rightarrow> nat \<Rightarrow> string" where
  "nat_digits 0 n = []"
| "nat_digits (Suc k) n =
     (if n < 10 then [char_of (48 + n)] else nat_digits k (n div 10) @ [char_of (48 + n mod 10)])"

definition std_IntToString :: "int \<Rightarrow> string" where
  "std_IntToString i =
     (if i < 0 then CHR ''-'' # nat_digits (Suc (nat (- i))) (nat (- i))
      else nat_digits (Suc (nat i)) (nat i))"

definition std_ParseBool :: "string \<Rightarrow> bool \<times> bool" where
  "std_ParseBool s =
     (let t = ToLower (Trim s) in
      if t \<in> set [''true'', ''t'', ''1'', ''yes'', ''on''] then (True, True)
      else if t \<in> set [''false'', ''f'', ''0'', ''no'', ''off''] then (False, True)
      else (False, False))"

definition std_ParseFloat64 :: "string \<Rightarrow> rat \<times> bool" where
  "std_ParseFloat64 s = (case std_ParseInt s of (i, ok) \<Rightarrow> (of_int i, ok))"

definition std_Float64ToString :: "rat \<Rightarrow> string" where
  "std_Float64ToString x = std_IntToString \<lfloor>x\<rfloor>"

definition std_StrToUint64 :: "string \<Rightarrow> nat" where
  "std_StrToUint64 s = (case std_ParseInt s of (i, ok) \<Rightarrow> if ok \<and> 0 \<le> i then nat i else 0)"

definition std_ParseDateTimeCustom :: "string \<Rightarrow> string \<Rightarrow> gotime" where
  "std_ParseDateTimeCustom s fmt = (case std_ParseInt s of (i, ok) \<Rightarrow> if ok then i else 0)"

definition is_digit :: "char \<Rightarrow> bool" where
  "is_digit c = (let n = (of_char c :: nat) in 48 \<le> n \<and> n \<le> 57)"

definition is_alpha :: "char \<Rightarrow> bool" where
  "is_alpha c = (let n = (of_char c :: nat) in (65 \<le> n \<and> n \<le> 90) \<or> (97 \<le> n \<and> n \<le> 122))"

definition is_hex :: "char \<Rightarrow> bool" where
  "is_hex c = (let n = (of_char c :: nat) in
     (48 \<le> n \<and> n \<le> 57) \<or> (65 \<le> n \<and> n \<le> 70) \<or> (97 \<le> n \<and> n \<le> 102))"

definition is_printable :: "char \<Rightarrow> bool" where
  "is_printable c = (let n = (of_char c :: nat) in 32 \<le> n \<and> n \<le> 126)"

definition std_render_number :: "bool \<Rightarrow> bool \<Rightarrow> bool \<Rightarrow> string \<Rightarrow> string \<times> bool \<times> string option" where
  "std_render_number isZero sz zb text =
     (if isZero \<and> sz then ([], True, None)
      else if isZero \<and> zb then ([], False, None)
      else (text, False, None))"

definition std_render_string :: "string \<Rightarrow> bool \<Rightarrow> string \<times> bool \<times> string option" where
  "std_render_string s sb = (if sb \<and> LenTrim s = 0 then ([], True, None) else (s, False, None))"

definition std_render_bool :: "bool \<Rightarrow> string \<Rightarrow> string \<Rightarrow> bool \<Rightarrow> string \<times> bool \<times> string option" where
  "std_render_bool b bt bf sz =
     (if b then (if length bt = 0 then ''true'' else Trim bt, False, None)
      else if sz then ([], True, None)
      else (if length bf = 0 \<or> Trim bt = Trim bf then ''false'' else Trim bf, False, None))"

fun std_ReflectValueToString ::
  "fvalue \<Rightarrow> string \<Rightarrow> string \<Rightarrow> bool \<Rightarrow> bool \<Rightarrow> string \<Rightarrow> bool \<Rightarrow> string \<times> bool \<times> string option" where
  "std_ReflectValueToString (VString s) bt bf sb sz tf zb = std_render_string s sb"
| "std_ReflectValueToString (VBool b) bt bf sb sz tf zb = std_render_bool b bt bf sz"
| "std_ReflectValueToString (VInt w i) bt bf sb sz tf zb =
     std_render_number (i = 0) sz zb (std_IntToString i)"
| "std_ReflectValueToString (VUint w u) bt bf sb sz tf zb =
     std_render_number (u = 0) sz zb (std_IntToString (int u))"
| "std_ReflectValueToString (VFloat w x) bt bf sb sz tf zb =
     std_render_number (x = 0) sz zb (std_Float64ToString x)"
| "std_ReflectValueToString (VTime t) bt bf sb sz tf zb =
     std_render_number (t = 0) sz zb (std_IntToString t)"
| "std_ReflectValueToString (VNullString s valid) bt bf sb sz tf zb =
     (if valid then std_render_string s sb else ([], sb, None))"
| "std_ReflectValueToString (VNullBool b valid) bt bf sb sz tf zb =
     (if valid then std_render_bool b bt bf sz else ([], sz, None))"
| "std_ReflectValueToString (VNullFloat64 x valid) bt bf sb sz tf zb =
     (if valid then std_render_number (x = 0) sz zb (std_Float64ToString x)
      else ([], sz, None))"
| "std_ReflectValueToString (VNullInt32 i valid) bt bf sb sz tf zb =
     (if valid then std_render_number (i = 0) sz zb (std_IntToString i)
      else ([], sz, None))"
| "std_ReflectValueToString (VNullInt64 i valid) bt bf sb sz tf zb =
     (if valid then std_render_number (i = 0) sz zb (std_IntToString i)
      else ([], sz, None))"
| "std_ReflectValueToString (VNullTime t valid) bt bf sb sz tf zb =
     (if valid then std_render_number (t = 0) sz zb (std_IntToString t)
      else ([], sz, None))"
| "std_ReflectValueToString v bt bf sb sz tf zb =
     ([], False, Some ''unhandled type'')"

fun std_ReflectStringToField :: "fvalue \<Rightarrow> string \<Rightarrow> string \<Rightarrow> fvalue \<times> string option" where
  "std_ReflectStringToField (VString _) text tf = (VString text, None)"
| "std_ReflectStringToField (VBool _) text tf = (VBool (fst (std_ParseBool text)), None)"
| "std_ReflectStringToField (VInt w i) text tf =
     (let i64 = fst (std_ParseInt text) in
      if \<not> OverflowInt w i64 then (VInt w i64, None) else (VInt w i, None))"
| "std_ReflectStringToField (VUint w u) text tf =
     (let u64 = std_StrToUint64 text in
      if \<not> OverflowUint w u64 then (VUint w u64, None) else (VUint w u, None))"
| "std_ReflectStringToField (VFloat w x) text tf =
     (let f64 = fst (std_ParseFloat64 text) in
      if \<not> OverflowFloat w f64 then (VFloat w f64, None) else (VFloat w x, None))"
| "std_ReflectStringToField (VTime _) text tf = (VTime (std_ParseDateTimeCustom text tf), None)"
| "std_ReflectStringToField (VNullString _ _) text tf = (VNullString text True, None)"
| "std_ReflectStringToField (VNullBool _ _) text tf = (VNullBool (fst (std_ParseBool text)) True, None)"
| "std_ReflectStringToField (VNullFloat64 _ _) text tf =
     (VNullFloat64 (fst (std_ParseFloat64 text)) True, None)"
| "std_ReflectStringToField (VNullInt32 _ _) text tf = (VNullInt32 (fst (std_ParseInt text)) True, None)"
| "std_ReflectStringToField (VNullInt64 _ _) text tf = (VNullInt64 (fst (std_ParseInt text)) True, None)"
| "std_ReflectStringToField (VNullTime _ _) text tf =
     (VNullTime (std_ParseDateTimeCustom text tf) True, None)"
| "std_ReflectStringToField v text tf = (v, Some ''unhandled type'')"

definition std_DerefPointersZero :: "fvalue \<Rightarrow> fvalue \<times> bool" where
  "std_DerefPointersZero v =
     (case v of VPtr None \<Rightarrow> (VCustom 0, True) | VPtr (Some x) \<Rightarrow> (x, False) | _ \<Rightarrow> (v, False))"

text \<open>Escaping: unreserved bytes stay, every other byte becomes a percent sign and two hex digits.\<close>

definition hex_digit :: "nat \<Rightarrow> char" where
  "hex_digit n = (if n < 10 then char_of (48 + n) else char_of (55 + n))"

definition std_PathEscape :: "string \<Rightarrow> string" where
  "std_PathEscape s =
     concat (map (\<lambda>c. if is_alpha c \<or> is_digit c \<or> c \<in> set ''-_.~$&+:=@''
                      then [c]
                      else [CHR ''%'', hex_digit ((of_char c :: nat) div 16), hex_digit ((of_char c :: nat) mod 16)]) s)"

definition std_JsonFromEscaped :: "string \<Rightarrow> string" where
  "std_JsonFromEscaped raw =
     (let buf = ReplaceAll raw [CHR 0x5C, CHR 0x22] [CHR 0x22];
          buf = ReplaceAll buf [CHR 0x5C, CHR 0x27] [CHR 0x27];
          buf = (if take 1 buf = [CHR 0x22] then drop 1 buf else buf);
          buf = (if length buf > 0 \<and> last buf = CHR 0x22 then butlast buf else buf)
      in buf)"

text \<open>
  The decoder of one flat JSON object: every member maps its key to the raw text of
  its value (a string with its quotes, or a bare token). When a key occurs twice the
  last member wins.
\<close>

fun read_string :: "string \<Rightarrow> string \<Rightarrow> (string \<times> string) option" where
  "read_string acc [] = None"
| "read_string acc [c] = (if c = CHR 0x22 then Some (acc, []) else None)"
| "read_string acc (c # d # cs) =
     (if c = CHR 0x22 then Some (acc, d # cs)
      else if c = CHR 0x5C then
        (if d \<in> set [CHR 0x22, CHR 0x5C, CHR ''/'', CHR ''b'', CHR ''f'', CHR ''n'', CHR ''r'', CHR ''t'']
         then read_string (acc @ [c, d]) cs else None)
      else read_string (acc @ [c]) (d # cs))"

definition read_value :: "string \<Rightarrow> (string \<times> string) option" where
  "read_value s =
     (case s of
        [] \<Rightarrow> None
      | c # cs \<Rightarrow>
          if c = CHR 0x22 then
            (case read_string [] cs of
               None \<Rightarrow> None
             | Some (body, rest) \<Rightarrow> Some ([CHR 0x22] @ body @ [CHR 0x22], rest))
          else (let tok = takeWhile (\<lambda>x. \<not> is_space x \<and> x \<noteq> CHR '','' \<and> x \<noteq> CHR ''}'') s
                in if tok \<in> set [''true'', ''false'', ''null''] \<or> (tok \<noteq> [] \<and> snd (std_ParseInt tok))
                   then Some (tok, drop (length tok) s) else None))"

fun read_members :: "nat \<Rightarrow> string \<Rightarrow> (string \<times> string) list \<Rightarrow> (string \<times> string) list option" where
  "read_members 0 s acc = None"
| "read_members (Suc n) s acc =
     (case dropWhile is_space s of
        [] \<Rightarrow> None
      | q # r \<Rightarrow>
          if q \<noteq> CHR 0x22 then None
          else (case read_string [] r of
                  None \<Rightarrow> None
                | Some (k, r1) \<Rightarrow>
                    (case dropWhile is_space r1 of
                       [] \<Rightarrow> None
                     | colon # r2 \<Rightarrow>
                         if colon \<noteq> CHR '':'' then None
                         else (case read_value (dropWhile is_space r2) of
                                 None \<Rightarrow> None
                               | Some (v, r3) \<Rightarrow>
                                   (case dropWhile is_space r3 of
                                      [] \<Rightarrow> None
                                    | sep # r4 \<Rightarrow>
                                        if sep = CHR '','' then read_members n r4 ((k, v) # acc)
                                        else if sep = CHR ''}'' \<and> dropWhile is_space r4 = []
                                        then Some ((k, v) # acc)
                                        else None)))))"

definition std_json_Unmarshal :: "string \<Rightarrow> json_result" where
  "std_json_Unmarshal payload =
     (let s = dropWhile is_space payload in
      if Trim payload = ''null'' then JsonNil
      else case s of
          [] \<Rightarrow> JsonError
        | c # r \<Rightarrow>
            if c \<noteq> CHR ''{'' then JsonError
            else if Trim r = ''}'' then JsonMap []
            else (case read_members (length r) r [] of
                    None \<Rightarrow> JsonError
                  | Some kvs \<Rightarrow> JsonMap (AList.clearjunk kvs)))"

definition std :: helpers where
  "std = \<lparr> ParseBool = std_ParseBool,
           ParseInt32 = std_ParseInt,
           ParseInt64 = std_ParseInt,
           ParseFloat64 = std_ParseFloat64,
           StrToUint64 = std_StrToUint64,
           ParseDateTimeCustom = std_ParseDateTimeCustom,
           DateTimeFormatString = ''2006-01-02 15:04:05'',
           Int64ToString = std_IntToString,
           UInt64ToString = (\<lambda>u. std_IntToString (int u)),
           Float64ToString = std_Float64ToString,
           Itoa = std_IntToString,
           ExtractAlpha = filter is_alpha,
           ExtractNumeric = filter is_digit,
           ExtractAlphaNumeric = filter (\<lambda>c. is_alpha c \<or> is_digit c),
           ExtractAlphaNumericPrintableSymbols = filter is_printable,
           ExtractHex = filter is_hex,
           ExtractByRegex = (\<lambda>v re. v),
           ReflectValueToString = std_ReflectValueToString,
           ReflectStringToField = std_ReflectStringToField,
           ReflectCall = (\<lambda>s r m args. None),
           DerefPointersZero = std_DerefPointersZero,
           ReflectTypeRegistryGet = (\<lambda>t. None),
           PathEscape = std_PathEscape,
           JsonToEscaped = (\<lambda>x. x),
           JsonFromEscaped = std_JsonFromEscaped,
           json_Unmarshal = std_json_Unmarshal \<rparr>"

section \<open>Readings of the specification and sample records\<close>

text \<open>
  The reading of the result of \<^verbatim>\<open>SetStructFieldDefaultValues\<close> that the specification
  gives: whether any field of the record declares a default value.
\<close>

fun any_default_declared :: "struct \<Rightarrow> bool" where
  "any_default_declared [] = False"
| "any_default_declared (f # fs) = (length (Tag_Get f ''def'') > 0 \<or> any_default_declared fs)"

text \<open>A string field \<^verbatim>\<open>Name string `json:"name" pos:"0"`\<close> holding \<^verbatim>\<open>bob\<close>.\<close>

definition plain_name :: field where
  "plain_name = \<lparr>Name = ''Name'', Tag = [(''json'', ''name''), (''pos'', ''0'')], CanSet = True,
     TypeName = ''string'', Value = VString ''bob''\<rparr>"

text \<open>
  The names of the fields whose iteration reaches the statement that appends to the
  output (for the CSV writer: the statement that sets a slot, and \<open>None\<close> when the
  function returns an error), when the function starts from the record \<open>s\<close>. For the
  CSV writer this is not yet the output: a later field of the same position replaces
  the text in the slot.
\<close>

definition qp_written :: "helpers \<Rightarrow> struct \<Rightarrow> string \<Rightarrow> string \<Rightarrow> string list" where
  "qp_written h s tagName excludeTagName = snd (qp_loop h s tagName excludeTagName Map.empty [] s)"

definition json_written :: "helpers \<Rightarrow> struct \<Rightarrow> string \<Rightarrow> string \<Rightarrow> string list" where
  "json_written h s tagName excludeTagName = snd (json_out_loop h s tagName excludeTagName Map.empty [] s)"

definition csv_written :: "helpers \<Rightarrow> struct \<Rightarrow> string list option" where
  "csv_written h s =
     (case out_loop h s Map.empty (replicate (length s) ''{?}'') s of
        Inl e \<Rightarrow> None | Inr (slots, written) \<Rightarrow> Some written)"

text \<open>A blank string field \<^verbatim>\<open>Note string `json:"note" pos:"0" skipblank:"true"`\<close>.\<close>

definition blank_skipped :: field where
  "blank_skipped = \<lparr>Name = ''Note'', Tag = [(''json'', ''note''), (''pos'', ''0''), (''skipblank'', ''true'')],
     CanSet = True, TypeName = ''string'', Value = VString []\<rparr>"








text \<open>Kinds of errors, as the specification names them.\<close>

fun is_validation :: "error \<Rightarrow> bool" where
  "is_validation (ValidationFailed _ _ _) = True"
| "is_validation (ValidationFalse _ _) = True"
| "is_validation (ValidationError _ _) = True"
| "is_validation e = False"


fun passes_through :: "error \<Rightarrow> bool" where
  "passes_through (BlocksOf _ _) = True"
| "passes_through (Failure _) = True"
| "passes_through (InterfaceWithoutObject _) = True"
| "passes_through e = False"

text \<open>
  A field whose tag \<^verbatim>\<open>validate\<close> compares against a list of values
  (\<^verbatim>\<open>==a||b\<close> or \<^verbatim>\<open>!=a&&b\<close>).
\<close>

definition listed_values :: "field \<Rightarrow> bool" where
  "listed_values f =
     (let valData = Trim (Tag_Get f ''validate'') in
      length valData \<ge> 3 \<and>
      ((Left valData 2 = ''=='' \<and> length (Split (Right valData (int (length valData) - 2)) ''||'') > 1)
       \<or> (Left valData 2 = ''!='' \<and> length (Split (Right valData (int (length valData) - 2)) ''&&'') > 1)))"

text \<open>The cleared state of a record: every settable field holds the zero value of its type.\<close>

fun all_cleared :: "struct \<Rightarrow> bool" where
  "all_cleared [] = True"
| "all_cleared (f # fs) = ((CanSet f \<longrightarrow> Value f = zero_value (Value f)) \<and> all_cleared fs)"

text \<open>
  Ordinal mode: a settable field without output prefix whose position is beyond the
  last element of the payload. An iteration proceeds when it goes on to the next field.
\<close>

definition out_of_range :: "helpers \<Rightarrow> string list \<Rightarrow> field \<Rightarrow> bool" where
  "out_of_range h csvElements f =
     (CanSet f \<and> Tag_Get f ''pos'' \<noteq> ''-'' \<and> snd (ParseInt32 h (Tag_Get f ''pos''))
      \<and> LenTrim (Trim (Tag_Get f ''outprefix'')) = 0
      \<and> int (length csvElements) - 1 < fst (ParseInt32 h (Tag_Get f ''pos'')))"

fun proceeds :: "csv_step \<Rightarrow> bool" where
  "proceeds (Next _ _) = True"
| "proceeds _ = False"



text \<open>Sample fields for the CSV and JSON readers and the CSV writer.\<close>

definition code_first :: field where
  "code_first = \<lparr>Name = ''Code'', Tag = [(''json'', ''code''), (''pos'', ''0''), (''validate'', ''==x'')],
     CanSet = True, TypeName = ''string'', Value = VString []\<rparr>"

definition code_second :: field where
  "code_second = \<lparr>Name = ''Code'', Tag = [(''json'', ''code''), (''pos'', ''1''), (''validate'', ''==x'')],
     CanSet = True, TypeName = ''string'', Value = VString []\<rparr>"

definition note_default :: field where
  "note_default = \<lparr>Name = ''Note'', Tag = [(''json'', ''note''), (''pos'', ''1''), (''def'', ''n/a'')],
     CanSet = True, TypeName = ''string'', Value = VString []\<rparr>"

definition tier_listed :: field where
  "tier_listed = \<lparr>Name = ''Tier'', Tag = [(''json'', ''tier''), (''pos'', ''1''), (''validate'', ''==gold||silver'')],
     CanSet = True, TypeName = ''string'', Value = VString []\<rparr>"

definition blob_custom :: field where
  "blob_custom = \<lparr>Name = ''Blob'', Tag = [(''json'', ''blob''), (''pos'', ''1'')],
     CanSet = True, TypeName = ''Blob'', Value = VCustom 0\<rparr>"




definition quoted :: "string \<Rightarrow> string" where
  "quoted s = [CHR 0x22] @ s @ [CHR 0x22]"

text \<open>
  Unique groups. A field produces when its iteration writes it to the output once its
  group is unclaimed: it is not excluded, its rendering neither skips nor fails, and it
  is not a blank unknown enum value inside a group. For the CSV writer the field stores
  when its iteration, with its group unclaimed, sets its slot. Two fields are in the
  same group when their group ids agree up to letter case; a group is free when the
  field has no group id or the id is not in \<^verbatim>\<open>uniqueMap\<close>.
\<close>

definition produces :: "helpers \<Rightarrow> struct \<Rightarrow> string \<Rightarrow> string \<Rightarrow> field \<Rightarrow> bool" where
  "produces h s tagName excludeTagName f =
     (case walk_field h s tagName excludeTagName Map.empty f of Render _ _ _ \<Rightarrow> True | Skip _ \<Rightarrow> False)"


definition same_group :: "field \<Rightarrow> field \<Rightarrow> bool" where
  "same_group f g = (ToLower (unique_id f) = ToLower (unique_id g))"

definition group_free :: "(string \<rightharpoonup> string) \<Rightarrow> field \<Rightarrow> bool" where
  "group_free um f = (unique_id f = [] \<or> um (ToLower (unique_id f)) = None)"




text \<open>
  The output of the marshal walk. The name under which a field is written (its tag in
  the namespace, its field name when the tag is blank), the text its iteration renders
  when its group is unclaimed, the pair \<^verbatim>\<open>name=value\<close> that
  \<^verbatim>\<open>MarshalStructToQueryParams\<close> appends for it, the value and the member
  \<^verbatim>\<open>"name":"value"\<close> that \<^verbatim>\<open>MarshalStructToJson\<close> appends for it, and the object made
  of the members of a list of fields.
\<close>

definition output_name :: "string \<Rightarrow> field \<Rightarrow> string" where
  "output_name tagName f = (let tag = Tag_Get f tagName in if LenTrim tag = 0 then Name f else tag)"

definition rendered_text :: "helpers \<Rightarrow> struct \<Rightarrow> string \<Rightarrow> string \<Rightarrow> field \<Rightarrow> string" where
  "rendered_text h s tagName excludeTagName f =
     (case walk_field h s tagName excludeTagName Map.empty f of Render _ _ buf \<Rightarrow> buf | Skip _ \<Rightarrow> [])"









definition claimed_by :: "(field \<Rightarrow> bool) \<Rightarrow> (string \<rightharpoonup> string) \<Rightarrow> field list \<Rightarrow> bool" where
  "claimed_by P um seen =
     (\<forall>g. group_free um g = (unique_id g = [] \<or> (\<forall>y \<in> set seen. same_group y g \<longrightarrow> \<not> P y)))"

















definition spaced_name :: field where
  "spaced_name = \<lparr>Name = ''Name'', Tag = [(''json'', '' name'')], CanSet = True,
     TypeName = ''string'', Value = VString ''bob''\<rparr>"

definition quoted_name :: field where
  "quoted_name = \<lparr>Name = ''Name'', Tag = [(''json'', ''name'')], CanSet = True,
     TypeName = ''string'', Value = VString (''it'' @ [CHR 0x27] @ ''s'')\<rparr>"

definition alias_name :: field where
  "alias_name = \<lparr>Name = ''Alias'', Tag = [(''json'', ''name'')], CanSet = True,
     TypeName = ''string'', Value = VString ''al''\<rparr>"


section \<open>Properties\<close>

subsection \<open>The result of SetStructFieldDefaultValues\<close>

text \<open>
  Claim C7 reads the boolean result of \<^verbatim>\<open>SetStructFieldDefaultValues\<close> as
  ``some field of the record declares a default value''. The record with the single
  field \<open>plain_name\<close>, which has no tag \<^verbatim>\<open>def\<close>, refutes that reading: the result
  is true.
\<close>

theorem C7_no_default_still_true:
  "snd (SetStructFieldDefaultValues std (IPtrStruct [plain_name])) \<noteq> any_default_declared [plain_name]"
  by (simp add: plain_name_def Tag_Get_def)

text \<open>
  C7, as the code has it: \<^verbatim>\<open>SetStructFieldDefaultValues\<close> returns true for every
  pointer to a struct, whether or not a field declares a default and whether or not a
  default was applied, and false exactly for nil, for a value that is not a pointer and
  for a pointer to something that is not a struct.
\<close>

theorem C7_result_is_struct_pointer:
  "snd (SetStructFieldDefaultValues h i) = (i \<noteq> INil \<and> i \<noteq> INonPtr \<and> i \<noteq> IPtrNonStruct)"
  by (cases i) simp_all

subsection \<open>Decode failures of UnmarshalJsonToStruct\<close>

lemma std_decodes_empty_object: "json_Unmarshal std ''{}'' = JsonMap []"
  by code_simp

lemma std_rejects_open_brace: "json_Unmarshal std ''{'' = JsonError"
  by code_simp

text \<open>
  C10: when the payload does not decode into a non-empty key/value map (the decoder
  fails, or delivers a nil map, or the empty map of \<^verbatim>\<open>{}\<close>), \<^verbatim>\<open>UnmarshalJsonToStruct\<close>
  returns an error and the record is exactly as it was passed in: the return comes
  before the record is cleared and before defaults are applied.
\<close>

theorem C10_decode_failure_leaves_record:
  assumes "json_Unmarshal h payload = JsonError \<or> json_Unmarshal h payload = JsonNil
             \<or> json_Unmarshal h payload = JsonMap []"
  shows "fst (UnmarshalJsonToStruct h i payload tagName excludeTagName) = i
           \<and> snd (UnmarshalJsonToStruct h i payload tagName excludeTagName) \<noteq> None"
  using assms by (auto simp: UnmarshalJsonToStruct_def split: iface.splits)

theorem C10_decode_failure_witness:
  "fst (UnmarshalJsonToStruct std (IPtrStruct [plain_name]) ''{}'' ''json'' []) = IPtrStruct [plain_name]
     \<and> snd (UnmarshalJsonToStruct std (IPtrStruct [plain_name]) ''{}'' ''json'' []) \<noteq> None
     \<and> fst (UnmarshalJsonToStruct std (IPtrStruct [plain_name]) ''{'' ''json'' []) = IPtrStruct [plain_name]
     \<and> snd (UnmarshalJsonToStruct std (IPtrStruct [plain_name]) ''{'' ''json'' []) \<noteq> None"
  using C10_decode_failure_leaves_record [of std "''{}''" "IPtrStruct [plain_name]" "''json''" "[]"]
        C10_decode_failure_leaves_record [of std "''{''" "IPtrStruct [plain_name]" "''json''" "[]"]
        std_decodes_empty_object std_rejects_open_brace
  by simp

subsection \<open>Blank output of the marshal functions\<close>

lemma qp_loop_nothing_written:
  "snd (qp_loop h s t e um out fs) = [] \<Longrightarrow> fst (qp_loop h s t e um out fs) = out"
  by (induction fs arbitrary: um out) (auto split: walk_step.splits prod.splits)

lemma json_out_loop_nothing_written:
  "snd (json_out_loop h s t e um out fs) = [] \<Longrightarrow> fst (json_out_loop h s t e um out fs) = out"
  by (induction fs arbitrary: um out) (auto split: walk_step.splits prod.splits)

lemma out_loop_nothing_written:
  "out_loop h s um csvList fs = Inr (slots, []) \<Longrightarrow> slots = csvList"
  by (induction fs arbitrary: um csvList) (auto split: out_step.splits sum.splits prod.splits)

lemma join_slots_unset: "join_slots d p (replicate n ''{?}'') = p"
  by (induction n) auto

lemma LenTrim_Nil: "LenTrim [] = 0"
  by (simp add: LenTrim_def Trim_def)

text \<open>
  Claim C1 says that every marshal function returns an error when no field produces
  output. \<^verbatim>\<open>MarshalStructToCSV\<close> does not: on the record with the single field
  \<open>blank_skipped\<close>, whose only field is skipped, it returns the empty text and no error.
\<close>

theorem C1_csv_blank_without_error:
  "csv_written std [blank_skipped] = Some []
     \<and> snd (MarshalStructToCSV std (IPtrStruct [blank_skipped]) '','') = None"
  by code_simp

text \<open>
  C1, as the code has it: when no field is written to the output,
  \<^verbatim>\<open>MarshalStructToQueryParams\<close> and \<^verbatim>\<open>MarshalStructToJson\<close> return the empty text
  together with an error, and \<^verbatim>\<open>MarshalStructToCSV\<close> returns the empty text and no
  error.
\<close>

theorem C1_blank_output:
  "(qp_written h s tagName excludeTagName = [] \<longrightarrow>
      fst (MarshalStructToQueryParams h (IPtrStruct s) tagName excludeTagName) = []
      \<and> snd (MarshalStructToQueryParams h (IPtrStruct s) tagName excludeTagName) \<noteq> None)
   \<and> (json_written h s tagName excludeTagName = [] \<longrightarrow>
      fst (MarshalStructToJson h (IPtrStruct s) tagName excludeTagName) = []
      \<and> snd (MarshalStructToJson h (IPtrStruct s) tagName excludeTagName) \<noteq> None)
   \<and> (csv_written h s = Some [] \<longrightarrow> MarshalStructToCSV h (IPtrStruct s) csvDelimiter = ([], None))"
proof (intro conjI impI)
  assume "qp_written h s tagName excludeTagName = []"
  then have "fst (qp_loop h s tagName excludeTagName Map.empty [] s) = []"
    unfolding qp_written_def by (rule qp_loop_nothing_written)
  then show "fst (MarshalStructToQueryParams h (IPtrStruct s) tagName excludeTagName) = []"
    and "snd (MarshalStructToQueryParams h (IPtrStruct s) tagName excludeTagName) \<noteq> None"
    by (simp_all add: MarshalStructToQueryParams_def LenTrim_Nil)
next
  assume "json_written h s tagName excludeTagName = []"
  then have "fst (json_out_loop h s tagName excludeTagName Map.empty [] s) = []"
    unfolding json_written_def by (rule json_out_loop_nothing_written)
  then show "fst (MarshalStructToJson h (IPtrStruct s) tagName excludeTagName) = []"
    and "snd (MarshalStructToJson h (IPtrStruct s) tagName excludeTagName) \<noteq> None"
    by (simp_all add: MarshalStructToJson_def LenTrim_Nil)
next
  assume "csv_written h s = Some []"
  then obtain slots where o: "out_loop h s Map.empty (replicate (length s) ''{?}'') s = Inr (slots, [])"
    by (auto simp: csv_written_def split: sum.splits prod.splits)
  then have "slots = replicate (length s) ''{?}''"
    by (rule out_loop_nothing_written)
  with o show "MarshalStructToCSV h (IPtrStruct s) csvDelimiter = ([], None)"
    by (simp add: MarshalStructToCSV_def join_slots_unset)
qed

lemma blank_skipped_qp: "qp_written std [blank_skipped] ''json'' [] = []"
  by code_simp

lemma blank_skipped_json: "json_written std [blank_skipped] ''json'' [] = []"
  by code_simp

lemma blank_skipped_csv: "csv_written std [blank_skipped] = Some []"
  by code_simp

theorem C1_blank_output_witness:
  "fst (MarshalStructToQueryParams std (IPtrStruct [blank_skipped]) ''json'' []) = []
     \<and> snd (MarshalStructToQueryParams std (IPtrStruct [blank_skipped]) ''json'' []) \<noteq> None
     \<and> fst (MarshalStructToJson std (IPtrStruct [blank_skipped]) ''json'' []) = []
     \<and> snd (MarshalStructToJson std (IPtrStruct [blank_skipped]) ''json'' []) \<noteq> None
     \<and> MarshalStructToCSV std (IPtrStruct [blank_skipped]) '','' = ([], None)"
  using C1_blank_output [of std "[blank_skipped]" "''json''" "[]" "'',''"]
        blank_skipped_qp blank_skipped_json blank_skipped_csv
  by simp

subsection \<open>IsStructFieldSet\<close>








subsection \<open>Errors of UnmarshalCSVToStruct\<close>

lemma csv_size_rule_error:
  "csv_size_rule n tt smax m v = Inl e \<Longrightarrow> e = BlocksOf n m \<and> m > 0"
  by (auto simp: csv_size_rule_def Let_def split: if_splits)

lemma set_field_error: "set_field h v t tf = (v', Some e) \<Longrightarrow> passes_through e"
  by (auto simp: set_field_def split: prod.splits)

lemma object_setter_error: "object_setter h s f ts t = (v', Some e) \<Longrightarrow> passes_through e"
  by (auto simp: object_setter_def prepare_object_def split: prod.splits option.splits if_splits)


lemma csv_validate_as_is:
  "csv_validate h n req vc vd v = FailedAsIs e \<Longrightarrow>
     (vc = ''=='' \<and> length (Split vd ''||'') > 1) \<or> (vc = ''!='' \<and> length (Split vd ''&&'') > 1)"
  by (auto simp: csv_validate_def Let_def split: if_splits prod.splits)


lemma csv_validator_error:
  "csv_validator h s f vd v tf pm = ReturnErr v' e \<Longrightarrow> passes_through e"
  by (auto simp: csv_validator_def split: prod.splits option.splits if_splits dest: set_field_error)



lemma csv_checked_as_is: "csv_checked h f v = FailedAsIs e \<Longrightarrow> listed_values f"
  unfolding csv_checked_def listed_values_def Let_def
  by (auto split: if_splits dest!: csv_validate_as_is)


lemma csv_validated_error:
  assumes "csv_validated h s f v pm = ReturnErr v' e" "\<not> listed_values f"
  shows "passes_through e"
proof (cases "length (Trim (Tag_Get f ''validate'')) \<ge> 3 \<and> Left (Trim (Tag_Get f ''validate'')) 2 = '':=''")
  case True
  with assms(1) show ?thesis
    by (auto simp: csv_validated_def Let_def dest: csv_validator_error)
next
  case False
  show ?thesis
  proof (cases "csv_checked h f v")
    case Passed
    with False assms(1) show ?thesis
      by (auto simp: csv_validated_def Let_def split: prod.splits option.splits dest: set_field_error)
  next
    case (FailedCleared x)
    with False assms(1) show ?thesis by (auto simp: csv_validated_def Let_def)
  next
    case (FailedAsIs x)
    with assms(2) show ?thesis by (auto dest: csv_checked_as_is)
  qed
qed



lemma csv_sized_error: "csv_sized h f v = Inl e \<Longrightarrow> passes_through e"
  by (auto simp: csv_sized_def split: if_splits dest: csv_size_rule_error)

lemma csv_apply_error:
  assumes "csv_apply h s f v pm = ReturnErr v' e" "\<not> listed_values f"
  shows "passes_through e"
  using assms
  unfolding csv_apply_def Let_def
  by (auto split: if_splits sum.splits prod.splits option.splits
           dest: csv_sized_error set_field_error object_setter_error csv_validated_error)



lemma csv_field_error:
  assumes "csv_field h s els pm f = ReturnErr v' e" "\<not> listed_values f"
  shows "passes_through e"
  using assms
  unfolding csv_field_def Let_def
  by (auto split: if_splits option.splits prod.splits dest: csv_apply_error)



lemma validation_not_passing: "is_validation e \<Longrightarrow> \<not> passes_through e"
  by (cases e) auto



lemma zero_value_idem: "zero_value (zero_value v) = zero_value v"
  by (cases v) auto

lemma all_cleared_clear_struct: "all_cleared (clear_struct s)"
  by (induction s) (auto simp: clear_struct_def clear_field_def zero_value_idem)

lemma csv_loop_validation_error:
  assumes "csv_loop h els pm done fs = (s', Some e)" "is_validation e" "\<forall>f \<in> set fs. \<not> listed_values f"
  shows "all_cleared s'"
  using assms
proof (induction fs arbitrary: pm "done")
  case Nil
  then show ?case by simp
next
  case (Cons f fs)
  show ?case
  proof (cases "csv_field h (done @ f # fs) els pm f")
    case (Next v pm')
    with Cons show ?thesis by auto
  next
    case ReturnNil
    with Cons.prems show ?thesis by auto
  next
    case (ReturnErr v e')
    with Cons.prems have "e' = e" by auto
    moreover from ReturnErr Cons.prems have "passes_through e'" by (auto dest: csv_field_error)
    ultimately show ?thesis using Cons.prems(2) by (auto dest: validation_not_passing)
  next
    case (ClearErr e')
    with Cons.prems show ?thesis by (auto simp: all_cleared_clear_struct)
  qed
qed


lemma listed_values_tags: "Tag f = Tag g \<Longrightarrow> listed_values f = listed_values g"
  by (simp add: listed_values_def Tag_Get_def)

lemma default_loop_tags: "map Tag (default_loop h done fs) = map Tag done @ map Tag fs"
  by (induction fs arbitrary: "done") (auto simp: default_field_def Let_def)

lemma post_default_tags: "map Tag (default_struct h (clear_struct s)) = map Tag s"
  by (simp add: default_struct_def default_loop_tags clear_struct_def clear_field_def comp_def)

lemma post_default_not_listed:
  assumes "\<forall>f \<in> set s. \<not> listed_values f"
  shows "\<forall>f \<in> set (default_struct h (clear_struct s)). \<not> listed_values f"
proof
  fix f assume "f \<in> set (default_struct h (clear_struct s))"
  then have "Tag f \<in> set (map Tag (default_struct h (clear_struct s)))" by simp
  then have "Tag f \<in> set (map Tag s)" by (simp only: post_default_tags)
  then obtain g where "g \<in> set s" "Tag g = Tag f" by auto
  with assms show "\<not> listed_values f" by (auto dest: listed_values_tags)
qed

subsection \<open>The record after a failed unmarshal\<close>

text \<open>
  Claim C2 says that after every unmarshal call that returns a validation or
  field-conversion error the record is in its cleared state. A conversion error leaves
  it as populated so far: \<^verbatim>\<open>UnmarshalJsonToStruct\<close> on the fields \<open>plain_name\<close> and
  \<open>blob_custom\<close> stores \<^verbatim>\<open>alice\<close> in the first and returns the error of the conversion
  into the second, and the record still holds \<^verbatim>\<open>alice\<close>.
\<close>

theorem C2_conversion_error_keeps_record:
  "UnmarshalJsonToStruct std (IPtrStruct [plain_name, blob_custom])
       (''{'' @ quoted ''name'' @ '':'' @ quoted ''alice'' @ '', '' @ quoted ''blob'' @ '':'' @ quoted ''x'' @ ''}'')
       ''json'' []
     = (IPtrStruct [plain_name\<lparr>Value := VString ''alice''\<rparr>, blob_custom], Some (Failure ''unhandled type''))
   \<and> \<not> all_cleared [plain_name\<lparr>Value := VString ''alice''\<rparr>, blob_custom]"
  by code_simp

text \<open>
  In \<^verbatim>\<open>UnmarshalCSVToStruct\<close> the comparison against a list of values returns its
  error without clearing the record as well (lines 1564 to 1566 and 1588 to 1590),
  unlike every other comparison of tag \<^verbatim>\<open>validate\<close>.
\<close>

lemma listed_validation_keeps_record:
  "UnmarshalCSVToStruct std (IPtrStruct [plain_name, tier_listed]) ''alice,bronze'' '','' None
     = (IPtrStruct [plain_name\<lparr>Value := VString ''alice''\<rparr>, tier_listed],
        Some (ValidationFailed ''Tier'' ''gold or silver'' ''bronze''))"
  by code_simp

text \<open>
  C2, as the code has it: when \<^verbatim>\<open>UnmarshalCSVToStruct\<close> returns a validation error
  and no field validates against a list of values, the record has been cleared: every
  settable field holds the zero value of its type. (An error of the conversion into a
  field, of the size rule or of an interface without object is returned with the record
  as it is at that moment, in both unmarshal functions.)
\<close>

theorem C2_validation_error_clears_record:
  assumes "UnmarshalCSVToStruct h (IPtrStruct s) csvPayload csvDelimiter custom = (i', Some e)"
    and "is_validation e"
    and "\<forall>f \<in> set s. \<not> listed_values f"
  shows "\<exists>s'. i' = IPtrStruct s' \<and> all_cleared s'"
proof -
  let ?els = "if length csvDelimiter > 0 then Split csvPayload csvDelimiter
              else (case custom of Some parse \<Rightarrow> parse csvPayload | None \<Rightarrow> [])"
  from assms(1,2) obtain s' where
    run: "csv_loop h ?els Map.empty [] (default_struct h (clear_struct s)) = (s', Some e)"
    and i': "i' = IPtrStruct s'"
    by (auto simp: UnmarshalCSVToStruct_def Let_def split: if_splits prod.splits)
  from run assms(2) post_default_not_listed [OF assms(3)] have "all_cleared s'"
    by (rule csv_loop_validation_error)
  with i' show ?thesis by simp
qed

lemma code_second_fails:
  "UnmarshalCSVToStruct std (IPtrStruct [plain_name, code_second]) ''alice,y'' '','' None
     = (IPtrStruct [plain_name\<lparr>Value := VString []\<rparr>, code_second], Some (ValidationFailed ''Code'' ''x'' ''y''))"
  by code_simp

lemma code_second_not_listed: "\<forall>f \<in> set [plain_name, code_second]. \<not> listed_values f"
  by code_simp

theorem C2_validation_error_clears_record_witness:
  "UnmarshalCSVToStruct std (IPtrStruct [plain_name, code_second]) ''alice,y'' '','' None
     = (IPtrStruct [plain_name\<lparr>Value := VString []\<rparr>, code_second], Some (ValidationFailed ''Code'' ''x'' ''y''))
   \<and> all_cleared [plain_name\<lparr>Value := VString []\<rparr>, code_second]"
  using C2_validation_error_clears_record [OF code_second_fails _ code_second_not_listed] code_second_fails
  by simp

subsection \<open>Fewer elements than positions\<close>

lemma out_of_range_returns: "out_of_range h els f \<Longrightarrow> csv_field h s els pm f = ReturnNil"
  by (auto simp: out_of_range_def csv_field_def Let_def)

lemma csv_loop_stops:
  assumes "\<forall>g \<in> set pre. \<forall>s' pm'. proceeds (csv_field h s' els pm' g)"
    and "out_of_range h els f"
  shows "\<exists>pre'. length pre' = length pre
           \<and> csv_loop h els pm done (pre @ f # post) = (done @ pre' @ f # post, None)"
  using assms(1)
proof (induction pre arbitrary: pm "done")
  case Nil
  from out_of_range_returns [OF assms(2)] show ?case by simp
next
  case (Cons g pre)
  from Cons.prems have "proceeds (csv_field h (done @ g # pre @ f # post) els pm g)" by simp
  then obtain v pm' where st: "csv_field h (done @ g # pre @ f # post) els pm g = Next v pm'"
    by (cases "csv_field h (done @ g # pre @ f # post) els pm g") auto
  from Cons.prems have "\<forall>g \<in> set pre. \<forall>s' pm'. proceeds (csv_field h s' els pm' g)" by simp
  from Cons.IH [OF this, of pm' "done @ [g\<lparr>Value := v\<rparr>]"] obtain pre' where
    "length pre' = length pre"
    "csv_loop h els pm' (done @ [g\<lparr>Value := v\<rparr>]) (pre @ f # post)
       = ((done @ [g\<lparr>Value := v\<rparr>]) @ pre' @ f # post, None)"
    by blast
  with st have "length (g\<lparr>Value := v\<rparr> # pre') = length (g # pre)
      \<and> csv_loop h els pm done ((g # pre) @ f # post) = (done @ (g\<lparr>Value := v\<rparr> # pre') @ f # post, None)"
    by simp
  then show ?case by blast
qed

lemma Split_from_not_empty: "Split_from sep cur s \<noteq> []"
  by (induction sep cur s rule: Split_from.induct) auto

lemma Split_not_empty: "sep \<noteq> [] \<Longrightarrow> Split s sep \<noteq> []"
  by (simp add: Split_def Split_from_not_empty)

text \<open>
  Claim C6 says that in ordinal mode every call with fewer elements than positions
  returns no error and leaves the fields beyond the elements at their post-default
  values. With the fields \<open>code_first\<close> (position 0, \<^verbatim>\<open>validate:"==x"\<close>) and
  \<open>note_default\<close> (position 1, default \<^verbatim>\<open>n/a\<close>) and the payload \<^verbatim>\<open>y\<close> of one element, the
  call returns the validation error of the first field, and the second field, whose
  post-default value is \<^verbatim>\<open>n/a\<close>, is blank.
\<close>

theorem C6_earlier_field_fails:
  "out_of_range std (Split ''y'' '','') note_default
   \<and> default_struct std (clear_struct [code_first, note_default])
       = [code_first, note_default\<lparr>Value := VString ''n/a''\<rparr>]
   \<and> UnmarshalCSVToStruct std (IPtrStruct [code_first, note_default]) ''y'' '','' None
       = (IPtrStruct [code_first, note_default\<lparr>Value := VString []\<rparr>],
          Some (ValidationFailed ''Code'' ''x'' ''y''))"
  by code_simp

text \<open>
  C6, as the code has it: in ordinal mode, when the post-default record has a first
  field whose position is beyond the elements of the payload and every field declared
  before it is read without an error, \<^verbatim>\<open>UnmarshalCSVToStruct\<close> returns no error at
  that field, and that field and every field declared after it (so every field whose
  position is beyond the elements) keep their post-default values.
\<close>

theorem C6_stops_at_first_field_beyond:
  assumes "LenTrim csvPayload \<noteq> 0" and "csvDelimiter \<noteq> []"
    and "default_struct h (clear_struct s) = pre @ f # post"
    and "out_of_range h (Split csvPayload csvDelimiter) f"
    and "\<forall>g \<in> set pre. \<forall>s' pm. proceeds (csv_field h s' (Split csvPayload csvDelimiter) pm g)"
  shows "\<exists>pre'. length pre' = length pre
           \<and> UnmarshalCSVToStruct h (IPtrStruct s) csvPayload csvDelimiter custom
               = (IPtrStruct (pre' @ f # post), None)"
proof -
  from csv_loop_stops [OF assms(5) assms(4), of Map.empty "[]" post] obtain pre' where
    "length pre' = length pre"
    "csv_loop h (Split csvPayload csvDelimiter) Map.empty [] (pre @ f # post) = (pre' @ f # post, None)"
    by auto
  with assms(1,2,3) Split_not_empty [OF assms(2), of csvPayload] show ?thesis
    by (auto simp: UnmarshalCSVToStruct_def Let_def)
qed

lemma alice_payload: "LenTrim ''alice'' \<noteq> 0"
  by code_simp

lemma alice_post_default:
  "default_struct std (clear_struct [plain_name, note_default])
     = [plain_name\<lparr>Value := VString []\<rparr>] @ note_default\<lparr>Value := VString ''n/a''\<rparr> # []"
  by code_simp

lemma alice_note_beyond:
  "out_of_range std (Split ''alice'' '','') (note_default\<lparr>Value := VString ''n/a''\<rparr>)"
  by code_simp

lemma alice_name_step:
  "proceeds (csv_field std s' (Split ''alice'' '','') pm (plain_name\<lparr>Value := VString []\<rparr>))"
  by code_simp

lemma alice_name_proceeds:
  "\<forall>g \<in> set [plain_name\<lparr>Value := VString []\<rparr>]. \<forall>s' pm. proceeds (csv_field std s' (Split ''alice'' '','') pm g)"
  using alice_name_step by simp

theorem C6_stops_at_first_field_beyond_witness:
  "\<exists>pre'. length pre' = length [plain_name\<lparr>Value := VString []\<rparr>]
     \<and> UnmarshalCSVToStruct std (IPtrStruct [plain_name, note_default]) ''alice'' '','' None
         = (IPtrStruct (pre' @ note_default\<lparr>Value := VString ''n/a''\<rparr> # []), None)"
  using C6_stops_at_first_field_beyond [OF alice_payload _ alice_post_default alice_note_beyond alice_name_proceeds]
  by simp

subsection \<open>Bool literal overrides\<close>






























subsection \<open>Unique groups in the marshal walk\<close>

lemma release_claim: "\<not> unique_taken um f \<Longrightarrow> unique_release (unique_claim um f) f = um"
  by (auto simp: unique_taken_def unique_release_def unique_claim_def)

lemma unknown_text_claimed:
  "unknown_text (unique_claim um f) f buf = unknown_text (unique_claim Map.empty f) f buf"
  by (simp add: unknown_text_def unique_claim_def Let_def)

lemma taken_empty: "\<not> unique_taken Map.empty f"
  by (simp add: unique_taken_def)

lemma taken_iff_not_free: "unique_taken um f = (\<not> group_free um f)"
  by (auto simp: unique_taken_def group_free_def)

lemma walk_field_from:
  "walk_field h s t e um f =
     (if group_free um f
      then (case walk_field h s t e Map.empty f of
              Skip _ \<Rightarrow> Skip um
            | Render _ tag buf \<Rightarrow> Render (unique_claim um f) tag buf)
      else Skip um)"
proof (cases "unique_taken um f")
  case True
  then show ?thesis
    by (auto simp: walk_field_def Let_def taken_iff_not_free)
next
  case False
  then have free: "group_free um f" by (simp add: taken_iff_not_free)
  show ?thesis
    using False free taken_empty [of f]
    by (simp add: walk_field_def Let_def release_claim unknown_text_claimed [of um]
             split: prod.splits option.splits)
qed

lemma ToLower_empty: "(ToLower x = []) = (x = [])"
  by (simp add: ToLower_def)

lemma claim_other:
  "group_free (unique_claim um y) f = (group_free um f \<and> (unique_id f = [] \<or> unique_id y = [] \<or> \<not> same_group y f))"
  by (auto simp: group_free_def unique_claim_def same_group_def ToLower_empty)












lemma same_group_sym: "same_group a b \<Longrightarrow> same_group b a"
  by (simp add: same_group_def)

lemma same_group_trans: "same_group a b \<Longrightarrow> same_group b c \<Longrightarrow> same_group a c"
  by (simp add: same_group_def)


lemma claimed_first:
  "claimed_by P um seen \<Longrightarrow>
   (P f \<and> group_free um f) = (P f \<and> (unique_id f = [] \<or> (\<forall>y \<in> set seen. same_group y f \<longrightarrow> \<not> P y)))"
  by (simp add: claimed_by_def)

lemma claimed_skip:
  assumes "claimed_by P um seen" and "\<not> (P f \<and> group_free um f)"
  shows "claimed_by P um (seen @ [f])"
proof (cases "P f")
  case False
  with assms(1) show ?thesis by (simp add: claimed_by_def)
next
  case True
  with assms have "\<not> group_free um f" by simp
  with assms(1) obtain y where y: "y \<in> set seen" "same_group y f" "P y"
    by (auto simp: claimed_by_def)
  show ?thesis
    unfolding claimed_by_def
  proof
    fix g
    have "same_group f g \<Longrightarrow> same_group y g" using y(2) by (rule same_group_trans)
    with y assms(1) show "group_free um g
        = (unique_id g = [] \<or> (\<forall>y \<in> set (seen @ [f]). same_group y g \<longrightarrow> \<not> P y))"
      by (auto simp: claimed_by_def)
  qed
qed

lemma claimed_take:
  assumes "claimed_by P um seen" and "P f"
  shows "claimed_by P (unique_claim um f) (seen @ [f])"
  unfolding claimed_by_def
proof
  fix g
  have "unique_id f = [] \<Longrightarrow> unique_id g \<noteq> [] \<Longrightarrow> \<not> same_group f g"
    by (metis ToLower_empty same_group_def)
  with assms show "group_free (unique_claim um f) g
      = (unique_id g = [] \<or> (\<forall>y \<in> set (seen @ [f]). same_group y g \<longrightarrow> \<not> P y))"
    by (auto simp: claimed_by_def claim_other)
qed



lemma walk_render:
  assumes "walk_field h s t e Map.empty f = Render um0 tag buf"
  shows "tag = output_name t f \<and> buf = rendered_text h s t e f"
proof -
  from assms have "tag = output_name t f"
    by (auto simp: walk_field_def output_name_def Let_def split: if_splits prod.splits option.splits)
  with assms show ?thesis by (simp add: rendered_text_def)
qed

lemma walk_step:
  assumes "claimed_by (produces h s t e) um seen"
  shows "if produces h s t e f \<and> (unique_id f = [] \<or> (\<forall>y \<in> set seen. same_group y f \<longrightarrow> \<not> produces h s t e y))
         then walk_field h s t e um f = Render (unique_claim um f) (output_name t f) (rendered_text h s t e f)
              \<and> claimed_by (produces h s t e) (unique_claim um f) (seen @ [f])
         else walk_field h s t e um f = Skip um \<and> claimed_by (produces h s t e) um (seen @ [f])"
proof (cases "produces h s t e f \<and> group_free um f")
  case True
  then obtain um0 tag buf where r: "walk_field h s t e Map.empty f = Render um0 tag buf"
    by (auto simp: produces_def split: walk_step.splits)
  from walk_render [OF r] r True have "walk_field h s t e um f
      = Render (unique_claim um f) (output_name t f) (rendered_text h s t e f)"
    by (simp add: walk_field_from [of h s t e um f])
  with True claimed_first [OF assms, of f] claimed_take [OF assms, of f] show ?thesis by simp
next
  case False
  then have "walk_field h s t e um f = Skip um"
    by (auto simp: walk_field_from [of h s t e um f] produces_def split: walk_step.splits)
  with False claimed_first [OF assms, of f] claimed_skip [OF assms False] show ?thesis by simp
qed






















subsection \<open>Size and range rules of the CSV reader and writer\<close>







































subsection \<open>The JSON round trip\<close>
























































text \<open>
  Three more records that do not come back: a tag with a blank in front is written as
  it is and looked up trimmed, so the field returns blank; an apostrophe is written
  with a backslash, which the decoder refuses, so the call returns an error; and of two
  fields written under one name the first returns with the value of the second.
\<close>

lemma untrimmed_name_is_lost:
  "MarshalStructToJson std (IPtrStruct [spaced_name]) ''json'' []
     = (''{'' @ quoted '' name'' @ '':'' @ quoted ''bob'' @ ''}'', None)
   \<and> UnmarshalJsonToStruct std (IPtrStruct [spaced_name])
         (fst (MarshalStructToJson std (IPtrStruct [spaced_name]) ''json'' [])) ''json'' []
       = (IPtrStruct [spaced_name\<lparr>Value := VString []\<rparr>], None)"
  by code_simp

lemma apostrophe_is_escaped:
  "MarshalStructToJson std (IPtrStruct [quoted_name]) ''json'' []
     = (''{'' @ quoted ''name'' @ '':'' @ quoted (''it'' @ [CHR 0x5C, CHR 0x27] @ ''s'') @ ''}'', None)
   \<and> UnmarshalJsonToStruct std (IPtrStruct [quoted_name])
         (fst (MarshalStructToJson std (IPtrStruct [quoted_name]) ''json'' [])) ''json'' []
       = (IPtrStruct [quoted_name], Some JsonFailed)"
  by code_simp

lemma shared_name_is_overwritten:
  "MarshalStructToJson std (IPtrStruct [plain_name, alias_name]) ''json'' []
     = (''{'' @ quoted ''name'' @ '':'' @ quoted ''bob'' @ '', '' @ quoted ''name'' @ '':'' @ quoted ''al''
          @ ''}'', None)
   \<and> UnmarshalJsonToStruct std (IPtrStruct [plain_name, alias_name])
         (fst (MarshalStructToJson std (IPtrStruct [plain_name, alias_name]) ''json'' [])) ''json'' []
       = (IPtrStruct [plain_name\<lparr>Value := VString ''al''\<rparr>, alias_name], None)"
  by code_simp

end
